theory Spec2Isabelle
  imports Main
begin

section \<open>Data model (src/types/channel.ts, src/types/message.ts)\<close>

text \<open>
  TypeScript string enums and string-literal unions are datatypes; interfaces are records.
  An optional field (\<open>name?: T\<close>) is an \<open>option\<close>, \<open>None\<close> standing for JavaScript's
  \<open>undefined\<close>. Field names that occur in several interfaces carry a one-letter prefix
  (\<open>t_\<close> thread, \<open>m_\<close> message, \<open>c_\<close> customer, \<open>i_\<close> identifier, \<open>sr_\<close> send result).
\<close>

datatype ChannelType = LINE | SMS | WHATSAPP | EMAIL | WEBCHAT | FACEBOOK | INSTAGRAM | LINKEDIN

datatype ChannelProvider = Twilio | Meta | LinkedIn | Direct

fun CHANNEL_PROVIDERS :: "ChannelType \<Rightarrow> ChannelProvider" where
  "CHANNEL_PROVIDERS LINE = Twilio"
| "CHANNEL_PROVIDERS SMS = Twilio"
| "CHANNEL_PROVIDERS WHATSAPP = Twilio"
| "CHANNEL_PROVIDERS WEBCHAT = Twilio"
| "CHANNEL_PROVIDERS EMAIL = Direct"
| "CHANNEL_PROVIDERS FACEBOOK = Meta"
| "CHANNEL_PROVIDERS INSTAGRAM = Meta"
| "CHANNEL_PROVIDERS LINKEDIN = LinkedIn"

text \<open>The string value of each member of the \<open>ChannelType\<close> enum.\<close>

fun channelStr :: "ChannelType \<Rightarrow> string" where
  "channelStr LINE = ''line''"
| "channelStr SMS = ''sms''"
| "channelStr WHATSAPP = ''whatsapp''"
| "channelStr EMAIL = ''email''"
| "channelStr WEBCHAT = ''webchat''"
| "channelStr FACEBOOK = ''facebook''"
| "channelStr INSTAGRAM = ''instagram''"
| "channelStr LINKEDIN = ''linkedin''"

datatype MessageDirection = Inbound | Outbound

datatype ContentType = Text | Image | File | Audio | Video | Location | Sticker

datatype MessageStatus = MsgPending | Sent | Delivered | Read | Failed

datatype ThreadStatus = Open | Pending | Closed

datatype IdentifierType = Line_id | Phone | Email | Fb_psid | Ig_igsid | Linkedin_urn | Webchat_id

fun identifierTypeStr :: "IdentifierType \<Rightarrow> string" where
  "identifierTypeStr Line_id = ''line_id''"
| "identifierTypeStr Phone = ''phone''"
| "identifierTypeStr Email = ''email''"
| "identifierTypeStr Fb_psid = ''fb_psid''"
| "identifierTypeStr Ig_igsid = ''ig_igsid''"
| "identifierTypeStr Linkedin_urn = ''linkedin_urn''"
| "identifierTypeStr Webchat_id = ''webchat_id''"

text \<open>\<open>Record<string, unknown>\<close> bags are passed through uninterpreted.\<close>

type_synonym metadata = "(string \<times> string) list"

record MessageAttachment =
  a_type :: ContentType
  a_url :: string
  a_filename :: "string option"
  a_mimeType :: "string option"
  a_size :: "nat option"

record UnifiedMessage =
  messageId :: string
  m_threadId :: string
  m_customerId :: string
  m_channel :: ChannelType
  direction :: MessageDirection
  content :: string
  contentType :: ContentType
  attachments :: "MessageAttachment list option"
  senderId :: string
  senderName :: "string option"
  senderAvatar :: "string option"
  timestamp :: string
  m_status :: MessageStatus
  externalMessageId :: "string option"
  m_metadata :: "metadata option"

record OutboundMessageRequest =
  req_threadId :: string
  req_content :: string
  req_contentType :: "ContentType option"
  req_attachments :: "MessageAttachment list option"
  operatorId :: string
  operatorName :: string

record SendResult =
  success :: bool
  sr_messageId :: "string option"
  sr_externalMessageId :: "string option"
  sr_error :: "string option"
  sr_timestamp :: string

record CustomerIdentifier =
  i_type :: IdentifierType
  i_value :: string
  i_channel :: ChannelType
  verified :: bool

text \<open>
  \<open>displayName\<close>, \<open>createdAt\<close> and \<open>updatedAt\<close> are declared \<open>string\<close> in the interface,
  but \<open>CustomerRepository.mapToCustomer\<close> copies them from whatever item the query
  returned, and an identifier index record has none of them: they are options here.
\<close>

record Customer =
  customerId :: string
  displayName :: "string option"
  avatarUrl :: "string option"
  identifiers :: "CustomerIdentifier list"
  tags :: "string list"
  c_notes :: "string option"
  isVip :: bool
  c_metadata :: "metadata option"
  c_createdAt :: "string option"
  c_updatedAt :: "string option"

record Thread =
  threadId :: string
  t_customerId :: string
  t_channel :: ChannelType
  externalConversationId :: "string option"
  t_status :: ThreadStatus
  assignedTo :: "string option"
  assignedToName :: "string option"
  larkGroupId :: "string option"
  larkMessageId :: "string option"
  subject :: "string option"
  lastMessageAt :: "string option"
  lastMessagePreview :: "string option"
  unreadCount :: nat
  t_metadata :: "metadata option"
  t_createdAt :: string
  t_updatedAt :: string

text \<open>
  What a \<open>throw\<close> carries. Every \<open>throw\<close> of the services is \<open>new Error(msg)\<close>; a
  \<open>TypeError\<close> is raised by the runtime (a method called on a value that lacks it).
  Both are instances of \<open>Error\<close> and have a message.
\<close>

datatype js_error = Error string | TypeError string

fun error_message :: "js_error \<Rightarrow> string" where
  "error_message (Error m) = m"
| "error_message (TypeError m) = m"

text \<open>JavaScript's \<open>a || b\<close> on an optional string: \<open>undefined\<close> and \<open>''\<close> are falsy.\<close>

fun truthy :: "string option \<Rightarrow> bool" where
  "truthy None = False"
| "truthy (Some s) = (s \<noteq> [])"

definition or_else :: "string option \<Rightarrow> string \<Rightarrow> string" where
  "or_else a b = (case a of None \<Rightarrow> b | Some s \<Rightarrow> if s = [] then b else s)"

definition or_else_opt :: "string option \<Rightarrow> string option \<Rightarrow> string option" where
  "or_else_opt a b = (if truthy a then a else b)"


section \<open>The document store (DynamoDB tables behind the repositories)\<close>

text \<open>
  A table is the list of its items, at most one per primary key, in storage order.
  \<open>GetCommand\<close> reads the item with a key, \<open>PutCommand\<close> replaces the item with the
  same key or adds a new one. A \<open>QueryCommand\<close> on an index visits the items that
  satisfy the key condition in index order (\<open>ScanIndexForward: false\<close> reverses it),
  evaluates at most \<open>Limit\<close> of them and returns those that pass the filter expression:
  DynamoDB applies \<open>Limit\<close> before \<open>FilterExpression\<close>. The sort keys of the indexes
  are not in the sources; storage order stands for ascending index order. Store
  outages (a rejected \<open>send\<close>) are outside this model.
\<close>

definition ddb_get :: "('a \<Rightarrow> string) \<Rightarrow> string \<Rightarrow> 'a list \<Rightarrow> 'a option" where
  "ddb_get key k tbl = find (\<lambda>x. key x = k) tbl"

definition ddb_put :: "('a \<Rightarrow> string) \<Rightarrow> 'a \<Rightarrow> 'a list \<Rightarrow> 'a list" where
  "ddb_put key x tbl =
     (if list_ex (\<lambda>y. key y = key x) tbl
      then map (\<lambda>y. if key y = key x then x else y) tbl
      else tbl @ [x])"

definition ddb_query ::
  "('a \<Rightarrow> bool) \<Rightarrow> ('a \<Rightarrow> bool) \<Rightarrow> bool \<Rightarrow> nat \<Rightarrow> 'a list \<Rightarrow> 'a list" where
  "ddb_query keyCondition filterExpression scanIndexForward limit tbl =
     filter filterExpression
       (take limit (filter keyCondition (if scanIndexForward then tbl else rev tbl)))"

text \<open>
  The customers table holds two shapes of item, both written by
  \<open>CustomerRepository.save\<close>: the main record of a customer, whose index attributes
  \<open>identifier_type\<close>/\<open>identifier_value\<close> are those of \<open>identifiers[0]\<close>, and one index
  record per further identifier, keyed \<open>customerId#type#value\<close>.
\<close>

datatype customer_item =
    MainRecord Customer
  | IndexRecord string IdentifierType string string

fun customer_id :: "customer_item \<Rightarrow> string" where
  "customer_id (MainRecord c) = customerId c"
| "customer_id (IndexRecord k ty v p) = k"

fun identifier_type :: "customer_item \<Rightarrow> IdentifierType option" where
  "identifier_type (MainRecord c) =
     (case identifiers c of [] \<Rightarrow> None | i # _ \<Rightarrow> Some (i_type i))"
| "identifier_type (IndexRecord k ty v p) = Some ty"

fun identifier_value :: "customer_item \<Rightarrow> string option" where
  "identifier_value (MainRecord c) =
     (case identifiers c of [] \<Rightarrow> None | i # _ \<Rightarrow> Some (i_value i))"
| "identifier_value (IndexRecord k ty v p) = Some v"

datatype lark_call =
    MessageCreate string UnifiedMessage
  | MessagePatch string SendResult

record world =
  customers :: "customer_item list"
  threads :: "Thread list"
  messages :: "UnifiedMessage list"
  provider_calls :: "(ChannelProvider \<times> Thread \<times> string \<times> MessageAttachment list option) list"
  lark_calls :: "lark_call list"

text \<open>
  Besides the three tables the world keeps two logs, oldest call first:
  \<open>provider_calls\<close>, the calls made to the channel clients (\<open>TwilioClient\<close>,
  \<open>MetaClient\<close>, \<open>LinkedInClient\<close>) with their arguments, and \<open>lark_calls\<close>, the
  requests made to the Lark SDK.
\<close>


section \<open>Repositories\<close>

subsection \<open>CustomerRepository\<close>

text \<open>
  \<open>mapToCustomer\<close> reads a main record back as the customer that was saved
  (\<open>identifiers || []\<close>, \<open>tags || []\<close> and \<open>is_vip || false\<close> are the saved values).
  An index record has none of the customer attributes: its key becomes the
  \<open>customerId\<close>, the lists are empty and the rest is \<open>undefined\<close>.
\<close>

fun mapToCustomer :: "customer_item \<Rightarrow> Customer" where
  "mapToCustomer (MainRecord c) = c"
| "mapToCustomer (IndexRecord k ty v p) =
     \<lparr>customerId = k, displayName = None, avatarUrl = None, identifiers = [], tags = [],
      c_notes = None, isVip = False, c_metadata = None, c_createdAt = None,
      c_updatedAt = None\<rparr>"

definition customerRepository_getById :: "string \<Rightarrow> world \<Rightarrow> Customer option" where
  "customerRepository_getById cid w =
     map_option mapToCustomer (ddb_get customer_id cid (customers w))"

text \<open>
  When several items carry the same index key, \<open>findByIdentifier\<close> returns the first in
  storage order here; the store may return another of them.
\<close>

definition customerRepository_findByIdentifier ::
  "IdentifierType \<Rightarrow> string \<Rightarrow> world \<Rightarrow> Customer option" where
  "customerRepository_findByIdentifier ty v w =
     (case ddb_query (\<lambda>it. identifier_type it = Some ty \<and> identifier_value it = Some v)
             (\<lambda>it. True) True 1 (customers w) of
        [] \<Rightarrow> None
      | it # _ \<Rightarrow> Some (mapToCustomer it))"

text \<open>The loop \<open>for (let i = 1; i < customer.identifiers.length; i++)\<close> of \<open>save\<close>.\<close>

fun save_index_records ::
  "string \<Rightarrow> CustomerIdentifier list \<Rightarrow> customer_item list \<Rightarrow> customer_item list" where
  "save_index_records cid [] tbl = tbl"
| "save_index_records cid (i # rest) tbl =
     save_index_records cid rest
       (ddb_put customer_id
          (IndexRecord (cid @ ''#'' @ identifierTypeStr (i_type i) @ ''#'' @ i_value i)
             (i_type i) (i_value i) cid)
          tbl)"

definition customerRepository_save :: "Customer \<Rightarrow> world \<Rightarrow> world" where
  "customerRepository_save c w =
     w\<lparr>customers :=
         save_index_records (customerId c) (drop 1 (identifiers c))
           (ddb_put customer_id (MainRecord c) (customers w))\<rparr>"

subsection \<open>ThreadRepository\<close>

text \<open>
  \<open>save\<close> and \<open>mapToThread\<close> rename the fields to and from snake case and lose nothing
  (\<open>unread_count || 0\<close> is the count itself), so the table holds the threads as they are.
\<close>

definition threadRepository_getById :: "string \<Rightarrow> world \<Rightarrow> Thread option" where
  "threadRepository_getById tid w = ddb_get threadId tid (threads w)"

definition findActiveByCustomerAndChannel ::
  "string \<Rightarrow> ChannelType \<Rightarrow> world \<Rightarrow> Thread option" where
  "findActiveByCustomerAndChannel cid ch w =
     (case ddb_query (\<lambda>t. t_customerId t = cid)
             (\<lambda>t. t_channel t = ch \<and> t_status t \<noteq> Closed) False 1 (threads w) of
        [] \<Rightarrow> None
      | t # _ \<Rightarrow> Some t)"

definition threadRepository_save :: "Thread \<Rightarrow> world \<Rightarrow> world" where
  "threadRepository_save t w = w\<lparr>threads := ddb_put threadId t (threads w)\<rparr>"

subsection \<open>MessageRepository\<close>

definition messageRepository_getById :: "string \<Rightarrow> world \<Rightarrow> UnifiedMessage option" where
  "messageRepository_getById mid w = ddb_get messageId mid (messages w)"

definition messageRepository_save :: "UnifiedMessage \<Rightarrow> world \<Rightarrow> world" where
  "messageRepository_save m w = w\<lparr>messages := ddb_put messageId m (messages w)\<rparr>"


section \<open>Services\<close>

text \<open>
  Each service method takes the values the runtime hands it in that call: the result of
  \<open>uuidv4()\<close> and of \<open>new Date().toISOString()\<close>. A method that throws does so before
  its first write, so its result is either the error or the world after it.
\<close>

subsection \<open>CustomerService\<close>

record CreateCustomerInput =
  cc_displayName :: string
  cc_identifier :: CustomerIdentifier
  cc_avatarUrl :: "string option"
  cc_metadata :: "metadata option"

definition customerService_create ::
  "CreateCustomerInput \<Rightarrow> string \<Rightarrow> string \<Rightarrow> world \<Rightarrow> Customer \<times> world" where
  "customerService_create input uuid now w =
     (let customer =
            \<lparr>customerId = uuid, displayName = Some (cc_displayName input),
             avatarUrl = cc_avatarUrl input, identifiers = [cc_identifier input],
             tags = [], c_notes = None, isVip = False, c_metadata = cc_metadata input,
             c_createdAt = Some now, c_updatedAt = Some now\<rparr>
      in (customer, customerRepository_save customer w))"

definition addIdentifier ::
  "string \<Rightarrow> CustomerIdentifier \<Rightarrow> string \<Rightarrow> world \<Rightarrow> js_error + world" where
  "addIdentifier cid identifier now w =
     (case customerRepository_getById cid w of
        None \<Rightarrow> Inl (Error ''Customer not found'')
      | Some customer \<Rightarrow>
          if list_ex (\<lambda>i. i_type i = i_type identifier \<and> i_value i = i_value identifier)
               (identifiers customer)
          then Inr w
          else Inr (customerRepository_save
                      (customer\<lparr>identifiers := identifiers customer @ [identifier],
                                c_updatedAt := Some now\<rparr>) w))"

subsection \<open>ThreadService\<close>

record CreateThreadInput =
  ct_customerId :: string
  ct_channel :: ChannelType
  ct_externalConversationId :: "string option"
  ct_subject :: "string option"

definition threadService_create ::
  "CreateThreadInput \<Rightarrow> string \<Rightarrow> string \<Rightarrow> world \<Rightarrow> Thread \<times> world" where
  "threadService_create input uuid now w =
     (let thread =
            \<lparr>threadId = uuid, t_customerId = ct_customerId input,
             t_channel = ct_channel input,
             externalConversationId = ct_externalConversationId input,
             t_status = Open, assignedTo = None, assignedToName = None,
             larkGroupId = None, larkMessageId = None, subject = ct_subject input,
             lastMessageAt = None, lastMessagePreview = None, unreadCount = 0,
             t_metadata = None, t_createdAt = now, t_updatedAt = now\<rparr>
      in (thread, threadRepository_save thread w))"

definition threadService_updateStatus ::
  "string \<Rightarrow> ThreadStatus \<Rightarrow> string \<Rightarrow> world \<Rightarrow> js_error + world" where
  "threadService_updateStatus tid status now w =
     (case threadRepository_getById tid w of
        None \<Rightarrow> Inl (Error ''Thread not found'')
      | Some thread \<Rightarrow>
          Inr (threadRepository_save (thread\<lparr>t_status := status, t_updatedAt := now\<rparr>) w))"

text \<open>
  In \<open>updateLastMessage\<close> the preview is the first 100 characters of the model's string,
  which are bytes, where \<open>substring(0, 100)\<close> counts UTF-16 units; \<open>unreadCount\<close> is a
  natural number without the bound of a JavaScript number.
\<close>

definition updateLastMessage ::
  "string \<Rightarrow> UnifiedMessage \<Rightarrow> string \<Rightarrow> world \<Rightarrow> js_error + world" where
  "updateLastMessage tid message now w =
     (case threadRepository_getById tid w of
        None \<Rightarrow> Inl (Error ''Thread not found'')
      | Some thread \<Rightarrow>
          Inr (threadRepository_save
                 (thread\<lparr>lastMessageAt := Some (timestamp message),
                         lastMessagePreview := Some (take 100 (content message)),
                         unreadCount :=
                           (if direction message = Inbound then unreadCount thread + 1
                            else unreadCount thread),
                         t_updatedAt := now\<rparr>) w))"

definition setLarkInfo ::
  "string \<Rightarrow> string \<Rightarrow> string \<Rightarrow> string \<Rightarrow> world \<Rightarrow> js_error + world" where
  "setLarkInfo tid groupId msgId now w =
     (case threadRepository_getById tid w of
        None \<Rightarrow> Inl (Error ''Thread not found'')
      | Some thread \<Rightarrow>
          Inr (threadRepository_save
                 (thread\<lparr>larkGroupId := Some groupId, larkMessageId := Some msgId,
                         t_updatedAt := now\<rparr>) w))"

subsection \<open>MessageService\<close>

definition messageService_store :: "UnifiedMessage \<Rightarrow> world \<Rightarrow> world" where
  "messageService_store message w = messageRepository_save message w"

definition messageService_updateStatus ::
  "string \<Rightarrow> MessageStatus \<Rightarrow> world \<Rightarrow> js_error + world" where
  "messageService_updateStatus mid status w =
     (case messageRepository_getById mid w of
        None \<Rightarrow> Inl (Error ''Message not found'')
      | Some message \<Rightarrow> Inr (messageRepository_save (message\<lparr>m_status := status\<rparr>) w))"


section \<open>Lark notifications (LarkClient in src/lark/client.ts, LarkNotificationService)\<close>

text \<open>
  The Lark SDK is outside the program: a request to it either returns or throws, and the
  runtime of a call says which. \<open>LarkClient\<close> wraps every request in \<open>try\<close>/\<open>catch\<close>
  and turns a throw into a result with \<open>success: false\<close>. Rendering the card
  (\<open>buildMessageCard\<close>) reads its arguments only and is left out.
\<close>

datatype 'a sdk_outcome = SdkReturns 'a | SdkThrows string

record LarkSendResult =
  l_success :: bool
  l_messageId :: "string option"
  l_error :: "string option"

definition sendInteractiveCard :: "string option sdk_outcome \<Rightarrow> LarkSendResult" where
  "sendInteractiveCard outcome =
     (case outcome of
        SdkReturns message_id \<Rightarrow>
          \<lparr>l_success = True, l_messageId = message_id, l_error = None\<rparr>
      | SdkThrows e \<Rightarrow> \<lparr>l_success = False, l_messageId = None, l_error = Some e\<rparr>)"

definition updateCard :: "string \<Rightarrow> unit sdk_outcome \<Rightarrow> LarkSendResult" where
  "updateCard msgId outcome =
     (case outcome of
        SdkReturns u \<Rightarrow> \<lparr>l_success = True, l_messageId = Some msgId, l_error = None\<rparr>
      | SdkThrows e \<Rightarrow> \<lparr>l_success = False, l_messageId = None, l_error = Some e\<rparr>)"

text \<open>
  \<open>sendMessageNotification\<close>: \<open>defaultGroupId\<close> is \<open>LARK_DEFAULT_GROUP_ID\<close> of the
  environment, \<open>create\<close> the outcome of the SDK request, \<open>now\<close> the clock that
  \<open>setLarkInfo\<close> reads.
\<close>

definition sendMessageNotification ::
  "UnifiedMessage \<Rightarrow> Customer \<Rightarrow> Thread \<Rightarrow> string \<Rightarrow> string option sdk_outcome \<Rightarrow> string
     \<Rightarrow> world \<Rightarrow> (js_error + unit) \<times> world" where
  "sendMessageNotification message customer thread defaultGroupId create now w =
     (let groupId = or_else (larkGroupId thread) defaultGroupId in
      if groupId = [] then (Inr (), w)
      else
        let result = sendInteractiveCard create;
            w1 = w\<lparr>lark_calls := lark_calls w @ [MessageCreate groupId message]\<rparr>
        in case l_messageId result of
             None \<Rightarrow> (Inr (), w1)
           | Some msgId \<Rightarrow>
               if msgId \<noteq> [] \<and> \<not> truthy (larkMessageId thread)
               then (case setLarkInfo (threadId thread) groupId msgId now w1 of
                       Inl e \<Rightarrow> (Inl e, w1)
                     | Inr w2 \<Rightarrow> (Inr (), w2))
               else (Inr (), w1))"

text \<open>
  \<open>updateMessageStatus\<close> awaits \<open>updateCard\<close> and drops its result, so the outcome of
  the patch request does not show in the world.
\<close>

definition updateMessageStatus ::
  "Thread \<Rightarrow> SendResult \<Rightarrow> unit sdk_outcome \<Rightarrow> world \<Rightarrow> world" where
  "updateMessageStatus thread result patch w =
     (case larkMessageId thread of
        None \<Rightarrow> w
      | Some msgId \<Rightarrow>
          if msgId = [] then w
          else let r = updateCard msgId patch
               in w\<lparr>lark_calls := lark_calls w @ [MessagePatch msgId result]\<rparr>)"


section \<open>Inbound pipeline (InboundService in src/services/inbound.ts)\<close>

text \<open>
  The argument of \<open>processMessage\<close> is \<open>Partial<UnifiedMessage>\<close> with the two identifier
  fields; the fields it reads are kept. \<open>channel\<close> is read as \<open>rawMessage.channel!\<close> and
  every webhook parser sets it, so it is not optional here.
\<close>

record RawMessage =
  r_channel :: ChannelType
  identifierType :: IdentifierType
  identifierValue :: string
  r_content :: "string option"
  r_contentType :: "ContentType option"
  r_attachments :: "MessageAttachment list option"
  r_senderId :: "string option"
  r_senderName :: "string option"
  r_senderAvatar :: "string option"
  r_timestamp :: "string option"
  r_externalMessageId :: "string option"
  r_metadata :: "metadata option"

text \<open>
  What the runtime supplies during one \<open>processMessage\<close>: the three \<open>uuidv4()\<close> results,
  the clock at each \<open>new Date()\<close>, the environment variable and the outcome of the Lark
  request.
\<close>

record inbound_runtime =
  uuid_customer :: string
  uuid_thread :: string
  uuid_message :: string
  now_customer :: string
  now_thread :: string
  now_message :: string
  now_updateLastMessage :: string
  now_setLarkInfo :: string
  LARK_DEFAULT_GROUP_ID :: string
  lark_message_create :: "string option sdk_outcome"

text \<open>Steps 1 and 2: find or create the customer, then the thread.\<close>

definition resolveCustomer :: "inbound_runtime \<Rightarrow> RawMessage \<Rightarrow> world \<Rightarrow> Customer \<times> world" where
  "resolveCustomer rt rawMessage w =
     (case customerRepository_findByIdentifier (identifierType rawMessage)
             (identifierValue rawMessage) w of
        Some customer \<Rightarrow> (customer, w)
      | None \<Rightarrow>
          customerService_create
            \<lparr>cc_displayName = or_else (r_senderName rawMessage) ''Unknown'',
             cc_identifier =
               \<lparr>i_type = identifierType rawMessage, i_value = identifierValue rawMessage,
                i_channel = r_channel rawMessage, verified = True\<rparr>,
             cc_avatarUrl = r_senderAvatar rawMessage, cc_metadata = None\<rparr>
            (uuid_customer rt) (now_customer rt) w)"

definition resolveThread ::
  "inbound_runtime \<Rightarrow> RawMessage \<Rightarrow> Customer \<Rightarrow> world \<Rightarrow> Thread \<times> world" where
  "resolveThread rt rawMessage customer w =
     (case findActiveByCustomerAndChannel (customerId customer) (r_channel rawMessage) w of
        Some thread \<Rightarrow> (thread, w)
      | None \<Rightarrow>
          threadService_create
            \<lparr>ct_customerId = customerId customer, ct_channel = r_channel rawMessage,
             ct_externalConversationId = r_externalMessageId rawMessage,
             ct_subject = None\<rparr>
            (uuid_thread rt) (now_thread rt) w)"

text \<open>Step 3: the message that is stored.\<close>

definition inboundMessage ::
  "inbound_runtime \<Rightarrow> RawMessage \<Rightarrow> Customer \<Rightarrow> Thread \<Rightarrow> UnifiedMessage" where
  "inboundMessage rt rawMessage customer thread =
     \<lparr>messageId = uuid_message rt,
      m_threadId = threadId thread,
      m_customerId = customerId customer,
      m_channel = r_channel rawMessage,
      direction = Inbound,
      content = or_else (r_content rawMessage) [],
      contentType = (case r_contentType rawMessage of None \<Rightarrow> Text | Some ct \<Rightarrow> ct),
      attachments = r_attachments rawMessage,
      senderId = or_else (r_senderId rawMessage) (customerId customer),
      senderName = or_else_opt (r_senderName rawMessage) (displayName customer),
      senderAvatar = or_else_opt (r_senderAvatar rawMessage) (avatarUrl customer),
      timestamp = or_else (r_timestamp rawMessage) (now_message rt),
      m_status = Delivered,
      externalMessageId = r_externalMessageId rawMessage,
      m_metadata = r_metadata rawMessage\<rparr>"

text \<open>
  Steps 1 to 4 of \<open>processMessage\<close>, up to and including \<open>updateLastMessage\<close>: what
  is persisted before the notification, with the local variables the notification gets.
\<close>

definition persistInbound ::
  "inbound_runtime \<Rightarrow> RawMessage \<Rightarrow> world
     \<Rightarrow> (js_error + UnifiedMessage \<times> Customer \<times> Thread) \<times> world" where
  "persistInbound rt rawMessage w =
     (let (customer, w1) = resolveCustomer rt rawMessage w;
          (thread, w2) = resolveThread rt rawMessage customer w1;
          message = inboundMessage rt rawMessage customer thread;
          w3 = messageService_store message w2
      in case updateLastMessage (threadId thread) message (now_updateLastMessage rt) w3 of
           Inl e \<Rightarrow> (Inl e, w3)
         | Inr w4 \<Rightarrow> (Inr (message, customer, thread), w4))"

definition processMessage ::
  "inbound_runtime \<Rightarrow> RawMessage \<Rightarrow> world \<Rightarrow> (js_error + unit) \<times> world" where
  "processMessage rt rawMessage w =
     (case persistInbound rt rawMessage w of
        (Inl e, w4) \<Rightarrow> (Inl e, w4)
      | (Inr (message, customer, thread), w4) \<Rightarrow>
          sendMessageNotification message customer thread (LARK_DEFAULT_GROUP_ID rt)
            (lark_message_create rt) (now_setLarkInfo rt) w4)"


section \<open>Outbound pipeline (OutboundService in src/services/analytics.ts)\<close>

text \<open>
  The channel clients are outside the model: a call to one returns a \<open>SendResult\<close>,
  throws an \<open>Error\<close>, or throws a value that is no \<open>Error\<close>.
\<close>

datatype send_outcome = SendReturns SendResult | SendThrows js_error | SendThrowsValue

record outbound_runtime =
  o_uuid_message :: string
  now_result :: string
  now_outMessage :: string
  now_outUpdate :: string
  client_sendMessage ::
    "ChannelProvider \<Rightarrow> Thread \<Rightarrow> string \<Rightarrow> MessageAttachment list option \<Rightarrow> send_outcome"
  lark_message_patch :: "unit sdk_outcome"

text \<open>One client call inside the \<open>try\<close> block, with the \<open>catch\<close> that follows it.\<close>

definition callClient ::
  "outbound_runtime \<Rightarrow> ChannelProvider \<Rightarrow> Thread \<Rightarrow> string \<Rightarrow> MessageAttachment list option
     \<Rightarrow> world \<Rightarrow> SendResult \<times> world" where
  "callClient rt provider thread text atts w =
     ((case client_sendMessage rt provider thread text atts of
         SendReturns r \<Rightarrow> r
       | SendThrows e \<Rightarrow>
           \<lparr>success = False, sr_messageId = None, sr_externalMessageId = None,
            sr_error = Some (error_message e), sr_timestamp = now_result rt\<rparr>
       | SendThrowsValue \<Rightarrow>
           \<lparr>success = False, sr_messageId = None, sr_externalMessageId = None,
            sr_error = Some ''Unknown error'', sr_timestamp = now_result rt\<rparr>),
      w\<lparr>provider_calls := provider_calls w @ [(provider, thread, text, atts)]\<rparr>)"

definition routeToChannel ::
  "outbound_runtime \<Rightarrow> OutboundMessageRequest \<Rightarrow> Thread \<Rightarrow> world \<Rightarrow> SendResult \<times> world" where
  "routeToChannel rt request thread w =
     (case CHANNEL_PROVIDERS (t_channel thread) of
        Twilio \<Rightarrow> callClient rt Twilio thread (req_content request) (req_attachments request) w
      | Meta \<Rightarrow> callClient rt Meta thread (req_content request) (req_attachments request) w
      | LinkedIn \<Rightarrow> callClient rt LinkedIn thread (req_content request) None w
      | Direct \<Rightarrow>
          (\<lparr>success = False, sr_messageId = None, sr_externalMessageId = None,
            sr_error = Some ''Unsupported channel'', sr_timestamp = now_result rt\<rparr>, w))"

definition outboundMessage ::
  "outbound_runtime \<Rightarrow> OutboundMessageRequest \<Rightarrow> Thread \<Rightarrow> SendResult \<Rightarrow> UnifiedMessage" where
  "outboundMessage rt request thread sendResult =
     \<lparr>messageId = o_uuid_message rt,
      m_threadId = threadId thread,
      m_customerId = t_customerId thread,
      m_channel = t_channel thread,
      direction = Outbound,
      content = req_content request,
      contentType = (case req_contentType request of None \<Rightarrow> Text | Some ct \<Rightarrow> ct),
      attachments = req_attachments request,
      senderId = operatorId request,
      senderName = Some (operatorName request),
      senderAvatar = None,
      timestamp = now_outMessage rt,
      m_status = Sent,
      externalMessageId = sr_externalMessageId sendResult,
      m_metadata = None\<rparr>"

definition sendReply ::
  "outbound_runtime \<Rightarrow> OutboundMessageRequest \<Rightarrow> world \<Rightarrow> (js_error + SendResult) \<times> world" where
  "sendReply rt request w =
     (case threadRepository_getById (req_threadId request) w of
        None \<Rightarrow>
          (Inr \<lparr>success = False, sr_messageId = None, sr_externalMessageId = None,
                sr_error = Some ''Thread not found'', sr_timestamp = now_result rt\<rparr>, w)
      | Some thread \<Rightarrow>
          let (sendResult, w1) = routeToChannel rt request thread w in
          if success sendResult
          then
            let message = outboundMessage rt request thread sendResult;
                w2 = messageService_store message w1
            in (case updateLastMessage (threadId thread) message (now_outUpdate rt) w2 of
                  Inl e \<Rightarrow> (Inl e, w2)
                | Inr w3 \<Rightarrow>
                    (Inr sendResult,
                     updateMessageStatus thread sendResult (lark_message_patch rt) w3))
          else
            (Inr sendResult, updateMessageStatus thread sendResult (lark_message_patch rt) w1))"


section \<open>Automation rules (AutomationService in src/services/analytics.ts)\<close>

datatype ConditionType = CondChannel | CondKeyword | CondCustomerAttribute | CondTime

datatype ConditionOperator = Equals | Contains | In | NotIn

text \<open>\<open>value: string | string[]\<close>\<close>

datatype ConditionValue = Str string | Arr "string list"

record RuleCondition =
  cond_type :: ConditionType
  cond_operator :: ConditionOperator
  cond_value :: ConditionValue

datatype ActionType = Notify | Assign | Tag | Priority | AutoReply

record RuleAction =
  action_type :: ActionType
  params :: "(string \<times> string) list"

record AutomationRule =
  rule_id :: string
  rule_name :: string
  enabled :: bool
  conditions :: "RuleCondition list"
  actions :: "RuleAction list"

text \<open>
  Strings are UTF-8 bytes, so the two Japanese keywords of the second rule are their byte
  sequences. \<open>LARK_VIP_GROUP\<close> is the environment variable, empty when unset.
\<close>

definition loadRules :: "string \<Rightarrow> AutomationRule list" where
  "loadRules LARK_VIP_GROUP =
     [\<lparr>rule_id = ''vip-notification'', rule_name = ''VIP Customer Notification'',
       enabled = True,
       conditions =
         [\<lparr>cond_type = CondCustomerAttribute, cond_operator = Equals,
           cond_value = Str ''vip:true''\<rparr>],
       actions =
         [\<lparr>action_type = Notify,
           params = [(''groupId'', LARK_VIP_GROUP), (''mention'', ''@all'')]\<rparr>,
          \<lparr>action_type = Priority, params = [(''level'', ''high'')]\<rparr>]\<rparr>,
      \<lparr>rule_id = ''urgent-keyword'', rule_name = ''Urgent Keyword Detection'',
       enabled = True,
       conditions =
         [\<lparr>cond_type = CondKeyword, cond_operator = Contains,
           cond_value =
             Arr [''urgent'',
                  [CHR 0xE7, CHR 0xB7, CHR 0x8A, CHR 0xE6, CHR 0x80, CHR 0xA5],
                  ''ASAP'',
                  [CHR 0xE3, CHR 0x82, CHR 0xAF, CHR 0xE3, CHR 0x83, CHR 0xAC,
                   CHR 0xE3, CHR 0x83, CHR 0xBC, CHR 0xE3, CHR 0x83, CHR 0xA0]]\<rparr>],
       actions =
         [\<lparr>action_type = Priority, params = [(''level'', ''high'')]\<rparr>,
          \<lparr>action_type = Tag, params = [(''tag'', ''urgent'')]\<rparr>]\<rparr>]"

definition matchValue :: "string \<Rightarrow> RuleCondition \<Rightarrow> bool" where
  "matchValue v condition =
     (case cond_operator condition of
        Equals \<Rightarrow> (case cond_value condition of Str s \<Rightarrow> v = s | Arr a \<Rightarrow> False)
      | In \<Rightarrow> (case cond_value condition of Str s \<Rightarrow> False | Arr a \<Rightarrow> List.member a v)
      | NotIn \<Rightarrow> (case cond_value condition of Str s \<Rightarrow> False | Arr a \<Rightarrow> \<not> List.member a v)
      | Contains \<Rightarrow> False)"

text \<open>
  \<open>String.prototype.toLowerCase\<close> on the ASCII letters; the bytes of other characters
  are left as they are. \<open>str_includes\<close> is \<open>String.prototype.includes\<close>.
\<close>

definition lowerChar :: "char \<Rightarrow> char" where
  "lowerChar c =
     (case map_of (zip ''ABCDEFGHIJKLMNOPQRSTUVWXYZ'' ''abcdefghijklmnopqrstuvwxyz'') c of
        None \<Rightarrow> c
      | Some l \<Rightarrow> l)"

definition toLowerCase :: "string \<Rightarrow> string" where
  "toLowerCase s = map lowerChar s"

fun str_includes :: "string \<Rightarrow> string \<Rightarrow> bool" where
  "str_includes [] needle = (needle = [])"
| "str_includes (c # cs) needle =
     (take (length needle) (c # cs) = needle \<or> str_includes cs needle)"

definition matchKeywords :: "string \<Rightarrow> RuleCondition \<Rightarrow> bool" where
  "matchKeywords text condition =
     (let keywords = (case cond_value condition of Arr a \<Rightarrow> a | Str s \<Rightarrow> [s]);
          lowerContent = toLowerCase text
      in list_ex (\<lambda>kw. str_includes lowerContent (toLowerCase kw)) keywords)"

text \<open>\<open>String.prototype.split\<close> with a one-character separator.\<close>

fun split :: "char \<Rightarrow> string \<Rightarrow> string list" where
  "split sep [] = [[]]"
| "split sep (c # cs) =
     (if c = sep then [] # split sep cs
      else (case split sep cs of [] \<Rightarrow> [[c]] | p # ps \<Rightarrow> (c # p) # ps))"

text \<open>
  \<open>(condition.value as string).split(':')\<close>: the cast is erased at run time, and an
  array has no \<open>split\<close> method, so an array value raises a \<open>TypeError\<close>. The
  destructuring \<open>[attr, val]\<close> reads the first two parts, \<open>val\<close> being \<open>undefined\<close>
  when there is no colon. The message of the \<open>TypeError\<close> stands for whatever text the
  engine gives it; only the kind of error is meant.
\<close>

definition matchCustomerAttribute :: "Customer \<Rightarrow> RuleCondition \<Rightarrow> js_error + bool" where
  "matchCustomerAttribute customer condition =
     (case cond_value condition of
        Arr a \<Rightarrow> Inl (TypeError ''condition.value.split is not a function'')
      | Str s \<Rightarrow>
          (let parts = split CHR '':'' s;
               attr = (case parts of [] \<Rightarrow> None | a # _ \<Rightarrow> Some a);
               val = (case parts of a # b # _ \<Rightarrow> Some b | _ \<Rightarrow> None)
           in if attr = Some ''vip'' then Inr (isVip customer = (val = Some ''true''))
              else if attr = Some ''tag''
              then Inr (case val of None \<Rightarrow> False | Some v \<Rightarrow> List.member (tags customer) v)
              else Inr False))"

text \<open>The server clock as \<open>matchTime\<close> reads it: \<open>getHours()\<close> and \<open>getDay()\<close>.\<close>

record LocalTime =
  hours :: nat
  day :: nat

definition matchTime :: "LocalTime \<Rightarrow> RuleCondition \<Rightarrow> bool" where
  "matchTime now condition =
     (let isBusinessHours = (day now \<ge> 1 \<and> day now \<le> 5 \<and> hours now \<ge> 9 \<and> hours now < 18)
      in if cond_value condition = Str ''business_hours'' then isBusinessHours
         else \<not> isBusinessHours)"

definition evaluateCondition ::
  "LocalTime \<Rightarrow> RuleCondition \<Rightarrow> UnifiedMessage \<Rightarrow> Customer \<Rightarrow> Thread \<Rightarrow> js_error + bool" where
  "evaluateCondition now condition message customer thread =
     (case cond_type condition of
        CondChannel \<Rightarrow> Inr (matchValue (channelStr (m_channel message)) condition)
      | CondKeyword \<Rightarrow> Inr (matchKeywords (content message) condition)
      | CondCustomerAttribute \<Rightarrow> matchCustomerAttribute customer condition
      | CondTime \<Rightarrow> Inr (matchTime now condition))"

text \<open>
  \<open>Array.prototype.every\<close> calls the predicate from left to right and stops at the first
  \<open>false\<close>; a throw of the predicate ends it.
\<close>

fun every_condition ::
  "LocalTime \<Rightarrow> RuleCondition list \<Rightarrow> UnifiedMessage \<Rightarrow> Customer \<Rightarrow> Thread \<Rightarrow> js_error + bool" where
  "every_condition now [] message customer thread = Inr True"
| "every_condition now (c # cs) message customer thread =
     (case evaluateCondition now c message customer thread of
        Inl e \<Rightarrow> Inl e
      | Inr b \<Rightarrow> if b then every_condition now cs message customer thread else Inr False)"

text \<open>The loop of \<open>evaluate\<close> over \<open>this.rules\<close>, with \<open>triggeredActions\<close> as accumulator.\<close>

fun evaluate_rules ::
  "LocalTime \<Rightarrow> AutomationRule list \<Rightarrow> RuleAction list \<Rightarrow> UnifiedMessage \<Rightarrow> Customer \<Rightarrow> Thread
     \<Rightarrow> js_error + RuleAction list" where
  "evaluate_rules now [] triggeredActions message customer thread = Inr triggeredActions"
| "evaluate_rules now (rule # rules) triggeredActions message customer thread =
     (if \<not> enabled rule then evaluate_rules now rules triggeredActions message customer thread
      else (case every_condition now (conditions rule) message customer thread of
              Inl e \<Rightarrow> Inl e
            | Inr conditionsMet \<Rightarrow>
                evaluate_rules now rules
                  (if conditionsMet then triggeredActions @ actions rule else triggeredActions)
                  message customer thread))"

definition evaluate ::
  "AutomationRule list \<Rightarrow> LocalTime \<Rightarrow> UnifiedMessage \<Rightarrow> Customer \<Rightarrow> Thread
     \<Rightarrow> js_error + RuleAction list" where
  "evaluate rules now message customer thread =
     evaluate_rules now rules [] message customer thread"


section \<open>Records the inbound pipeline builds\<close>

text \<open>
  Names for three records that the services build, used to state what
  \<open>processMessage\<close> stores: the customer that \<open>customerService_create\<close> makes from
  the input of \<open>resolveCustomer\<close>, the thread that \<open>threadService_create\<close> makes from
  the input of \<open>resolveThread\<close>, and the thread that \<open>updateLastMessage\<close> saves.
\<close>

definition newCustomer :: "inbound_runtime \<Rightarrow> RawMessage \<Rightarrow> Customer" where
  "newCustomer rt rawMessage =
     \<lparr>customerId = uuid_customer rt,
      displayName = Some (or_else (r_senderName rawMessage) ''Unknown''),
      avatarUrl = r_senderAvatar rawMessage,
      identifiers =
        [\<lparr>i_type = identifierType rawMessage, i_value = identifierValue rawMessage,
          i_channel = r_channel rawMessage, verified = True\<rparr>],
      tags = [], c_notes = None, isVip = False, c_metadata = None,
      c_createdAt = Some (now_customer rt), c_updatedAt = Some (now_customer rt)\<rparr>"

definition newThread :: "inbound_runtime \<Rightarrow> RawMessage \<Rightarrow> Customer \<Rightarrow> Thread" where
  "newThread rt rawMessage customer =
     \<lparr>threadId = uuid_thread rt, t_customerId = customerId customer,
      t_channel = r_channel rawMessage,
      externalConversationId = r_externalMessageId rawMessage,
      t_status = Open, assignedTo = None, assignedToName = None, larkGroupId = None,
      larkMessageId = None, subject = None, lastMessageAt = None,
      lastMessagePreview = None, unreadCount = 0, t_metadata = None,
      t_createdAt = now_thread rt, t_updatedAt = now_thread rt\<rparr>"

definition afterMessage :: "UnifiedMessage \<Rightarrow> string \<Rightarrow> Thread \<Rightarrow> Thread" where
  "afterMessage message now thread =
     thread\<lparr>lastMessageAt := Some (timestamp message),
            lastMessagePreview := Some (take 100 (content message)),
            unreadCount := (if direction message = Inbound then unreadCount thread + 1
                            else unreadCount thread),
            t_updatedAt := now\<rparr>"


section \<open>Concrete data\<close>

text \<open>
  A small world: two customers, a closed SMS thread and an open e-mail thread, and one
  outbound message that has been sent.
\<close>

definition alice :: Customer where
  "alice =
     \<lparr>customerId = ''customer-a'', displayName = Some ''Alice'', avatarUrl = None,
      identifiers = [\<lparr>i_type = Email, i_value = ''alice@example.com'', i_channel = EMAIL,
                      verified = True\<rparr>],
      tags = [], c_notes = None, isVip = False, c_metadata = None,
      c_createdAt = Some ''2025-01-01T00:00:00.000Z'',
      c_updatedAt = Some ''2025-01-01T00:00:00.000Z''\<rparr>"

definition bob :: Customer where
  "bob =
     \<lparr>customerId = ''customer-b'', displayName = Some ''Bob'', avatarUrl = None,
      identifiers = [\<lparr>i_type = Line_id, i_value = ''U123'', i_channel = LINE,
                      verified = True\<rparr>],
      tags = [], c_notes = None, isVip = True, c_metadata = None,
      c_createdAt = Some ''2025-01-01T00:00:00.000Z'',
      c_updatedAt = Some ''2025-01-01T00:00:00.000Z''\<rparr>"

definition closed_thread :: Thread where
  "closed_thread =
     \<lparr>threadId = ''thread-1'', t_customerId = ''customer-b'', t_channel = SMS,
      externalConversationId = Some ''CH1'', t_status = Closed, assignedTo = None,
      assignedToName = None, larkGroupId = None, larkMessageId = None, subject = None,
      lastMessageAt = None, lastMessagePreview = None, unreadCount = 0, t_metadata = None,
      t_createdAt = ''2025-01-01T00:00:00.000Z'', t_updatedAt = ''2025-01-02T00:00:00.000Z''\<rparr>"

definition email_thread :: Thread where
  "email_thread =
     \<lparr>threadId = ''thread-2'', t_customerId = ''customer-a'', t_channel = EMAIL,
      externalConversationId = Some ''<msg-1@example.com>'', t_status = Open,
      assignedTo = None, assignedToName = None, larkGroupId = None, larkMessageId = None,
      subject = None, lastMessageAt = None, lastMessagePreview = None, unreadCount = 1,
      t_metadata = None,
      t_createdAt = ''2025-01-01T00:00:00.000Z'', t_updatedAt = ''2025-01-01T00:00:00.000Z''\<rparr>"

definition sent_message :: UnifiedMessage where
  "sent_message =
     \<lparr>messageId = ''message-1'', m_threadId = ''thread-1'', m_customerId = ''customer-b'',
      m_channel = SMS, direction = Outbound, content = ''hi back'', contentType = Text,
      attachments = None, senderId = ''ou_1'', senderName = Some ''Operator'',
      senderAvatar = None, timestamp = ''2025-01-01T00:00:00.000Z'', m_status = Sent,
      externalMessageId = Some ''X1'', m_metadata = None\<rparr>"

definition seed_world :: world where
  "seed_world =
     \<lparr>customers = [MainRecord alice, MainRecord bob],
      threads = [closed_thread, email_thread],
      messages = [sent_message], provider_calls = [], lark_calls = []\<rparr>"

text \<open>Inbound messages from a telephone number no customer has, and their runtimes.\<close>

definition hello :: RawMessage where
  "hello =
     \<lparr>r_channel = SMS, identifierType = Phone, identifierValue = ''+81900000001'',
      r_content = Some ''hello'', r_contentType = Some Text, r_attachments = None,
      r_senderId = Some ''+81900000001'', r_senderName = None, r_senderAvatar = None,
      r_timestamp = Some ''2025-02-01T09:00:00.000Z'', r_externalMessageId = Some ''SM1'',
      r_metadata = None\<rparr>"

definition hello_again :: RawMessage where
  "hello_again =
     hello\<lparr>r_content := Some ''anyone there?'', r_externalMessageId := Some ''SM2'',
           r_timestamp := Some ''2025-02-01T09:05:00.000Z''\<rparr>"

definition urgent_hello :: RawMessage where
  "urgent_hello = hello\<lparr>r_content := Some ''URGENT: call me back''\<rparr>"

definition first_run :: inbound_runtime where
  "first_run =
     \<lparr>uuid_customer = ''uuid-c'', uuid_thread = ''uuid-t'', uuid_message = ''uuid-m1'',
      now_customer = ''2025-02-01T09:00:01.000Z'', now_thread = ''2025-02-01T09:00:02.000Z'',
      now_message = ''2025-02-01T09:00:03.000Z'',
      now_updateLastMessage = ''2025-02-01T09:00:04.000Z'',
      now_setLarkInfo = ''2025-02-01T09:00:05.000Z'',
      LARK_DEFAULT_GROUP_ID = ''oc_default'',
      lark_message_create = SdkReturns (Some ''om_1'')\<rparr>"

definition second_run :: inbound_runtime where
  "second_run =
     first_run\<lparr>uuid_customer := ''uuid-c2'', uuid_thread := ''uuid-t2'',
               uuid_message := ''uuid-m2'', lark_message_create := SdkThrows ''timeout''\<rparr>"

definition failing_run :: inbound_runtime where
  "failing_run = first_run\<lparr>lark_message_create := SdkThrows ''ECONNRESET''\<rparr>"

text \<open>
  The customer and the thread that \<open>processMessage first_run\<close> creates for a message
  from that number, and the message it builds from \<open>urgent_hello\<close>.
\<close>

definition caller :: Customer where
  "caller =
     \<lparr>customerId = ''uuid-c'', displayName = Some ''Unknown'', avatarUrl = None,
      identifiers = [\<lparr>i_type = Phone, i_value = ''+81900000001'', i_channel = SMS,
                      verified = True\<rparr>],
      tags = [], c_notes = None, isVip = False, c_metadata = None,
      c_createdAt = Some ''2025-02-01T09:00:01.000Z'',
      c_updatedAt = Some ''2025-02-01T09:00:01.000Z''\<rparr>"

definition caller_thread :: Thread where
  "caller_thread =
     \<lparr>threadId = ''uuid-t'', t_customerId = ''uuid-c'', t_channel = SMS,
      externalConversationId = Some ''SM1'', t_status = Open, assignedTo = None,
      assignedToName = None, larkGroupId = None, larkMessageId = None, subject = None,
      lastMessageAt = None, lastMessagePreview = None, unreadCount = 0, t_metadata = None,
      t_createdAt = ''2025-02-01T09:00:02.000Z'', t_updatedAt = ''2025-02-01T09:00:02.000Z''\<rparr>"

definition urgent_message :: UnifiedMessage where
  "urgent_message =
     \<lparr>messageId = ''uuid-m1'', m_threadId = ''uuid-t'', m_customerId = ''uuid-c'',
      m_channel = SMS, direction = Inbound, content = ''URGENT: call me back'',
      contentType = Text, attachments = None, senderId = ''+81900000001'',
      senderName = Some ''Unknown'', senderAvatar = None,
      timestamp = ''2025-02-01T09:00:00.000Z'', m_status = Delivered,
      externalMessageId = Some ''SM1'', m_metadata = None\<rparr>"










text \<open>An inbound message from Bob.\<close>

definition ping :: RawMessage where
  "ping =
     \<lparr>r_channel = LINE, identifierType = Line_id, identifierValue = ''U123'',
      r_content = Some ''ping'', r_contentType = Some Text,
      r_attachments = None, r_senderId = Some ''U123'', r_senderName = Some ''Bob'',
      r_senderAvatar = None, r_timestamp = Some ''2025-02-01T09:00:00.000Z'',
      r_externalMessageId = Some ''SM7'', r_metadata = None\<rparr>"

text \<open>Alice's address, as an identifier somebody asks to attach.\<close>

definition alice_email :: CustomerIdentifier where
  "alice_email =
     \<lparr>i_type = Email, i_value = ''alice@example.com'', i_channel = EMAIL, verified = False\<rparr>"

text \<open>A telephone number for Bob, and the small world once it is attached to him.\<close>

definition bob_phone :: CustomerIdentifier where
  "bob_phone =
     \<lparr>i_type = Phone, i_value = ''+81900000002'', i_channel = SMS, verified = False\<rparr>"

definition with_phone :: world where
  "with_phone =
     seed_world\<lparr>customers :=
       [MainRecord alice,
        MainRecord (bob\<lparr>identifiers := identifiers bob @ [bob_phone],
                         c_updatedAt := Some ''2025-03-01T00:00:00.000Z''\<rparr>),
        IndexRecord ''customer-b#phone#+81900000002'' Phone ''+81900000002''
          ''customer-b'']\<rparr>"

text \<open>An operator's reply, a client that delivers and a client that throws.\<close>

definition reply :: OutboundMessageRequest where
  "reply =
     \<lparr>req_threadId = ''thread-1'', req_content = ''hi back'', req_contentType = Some Text,
      req_attachments = None, operatorId = ''ou_1'', operatorName = ''Operator''\<rparr>"

definition sent_ok :: SendResult where
  "sent_ok =
     \<lparr>success = True, sr_messageId = None, sr_externalMessageId = Some ''X1'',
      sr_error = None, sr_timestamp = ''2025-03-01T00:00:01.000Z''\<rparr>"

definition delivering_run :: outbound_runtime where
  "delivering_run =
     \<lparr>o_uuid_message = ''uuid-o1'', now_result = ''2025-03-01T00:00:00.000Z'',
      now_outMessage = ''2025-03-01T00:00:02.000Z'', now_outUpdate = ''2025-03-01T00:00:03.000Z'',
      client_sendMessage = (\<lambda>provider thread text atts. SendReturns sent_ok),
      lark_message_patch = SdkReturns ()\<rparr>"

definition throwing_run :: outbound_runtime where
  "throwing_run =
     delivering_run\<lparr>client_sendMessage :=
       (\<lambda>provider thread text atts. SendThrows (Error ''ETIMEDOUT''))\<rparr>"

text \<open>A rule whose customer-attribute condition carries an array.\<close>

definition array_valued_rule :: AutomationRule where
  "array_valued_rule =
     \<lparr>rule_id = ''vip-list'', rule_name = ''VIP (array value)'', enabled = True,
      conditions = [\<lparr>cond_type = CondCustomerAttribute, cond_operator = In,
                     cond_value = Arr [''vip:true'']\<rparr>],
      actions = [\<lparr>action_type = Priority, params = [(''level'', ''high'')]\<rparr>]\<rparr>"

definition monday_morning :: LocalTime where
  "monday_morning = \<lparr>hours = 10, day = 1\<rparr>"

lemmas ex_defs = seed_world_def alice_def bob_def email_thread_def closed_thread_def
  sent_message_def hello_def hello_again_def first_run_def second_run_def failing_run_def

lemmas out_defs = reply_def sent_ok_def delivering_run_def throwing_run_def

lemmas store_defs = ddb_get_def ddb_put_def ddb_query_def
  customerRepository_getById_def customerRepository_findByIdentifier_def
  customerRepository_save_def threadRepository_getById_def findActiveByCustomerAndChannel_def
  threadRepository_save_def messageRepository_getById_def messageRepository_save_def



section \<open>Facts about the store\<close>

lemma find_replace_same:
  "\<exists>y\<in>set tbl. key y = key x \<Longrightarrow>
   find (\<lambda>z. key z = key x) (map (\<lambda>y. if key y = key x then x else y) tbl) = Some x"
  by (induction tbl) auto

lemma find_replace_other:
  "k \<noteq> key x \<Longrightarrow>
   find (\<lambda>z. key z = k) (map (\<lambda>y. if key y = key x then x else y) tbl) =
   find (\<lambda>z. key z = k) tbl"
  by (induction tbl) auto

lemma find_append_new:
  "find P (tbl @ [x]) =
     (case find P tbl of Some y \<Rightarrow> Some y | None \<Rightarrow> if P x then Some x else None)"
  by (induction tbl) auto

lemma find_None_key: "\<not> (\<exists>y\<in>set tbl. key y = k) \<Longrightarrow> find (\<lambda>z. key z = k) tbl = None"
  by (induction tbl) auto

lemma ddb_get_put_same: "ddb_get key (key x) (ddb_put key x tbl) = Some x"
  unfolding ddb_get_def ddb_put_def
  by (simp add: list_ex_iff find_replace_same find_append_new find_None_key)

lemma ddb_get_put_other:
  "k \<noteq> key x \<Longrightarrow> ddb_get key k (ddb_put key x tbl) = ddb_get key k tbl"
  unfolding ddb_get_def ddb_put_def
  by (simp add: list_ex_iff find_replace_other find_append_new split: option.splits)

lemma ddb_put_fresh: "key x \<notin> key ` set tbl \<Longrightarrow> ddb_put key x tbl = tbl @ [x]"
  unfolding ddb_put_def by (auto simp: list_ex_iff image_iff)

lemma ddb_get_SomeD: "ddb_get key k tbl = Some x \<Longrightarrow> key x = k \<and> x \<in> set tbl"
  unfolding ddb_get_def by (induction tbl) (auto split: if_splits)

lemma ddb_get_last:
  assumes "key x \<notin> key ` set tbl"
  shows "ddb_get key (key x) (tbl @ [x]) = Some x"
proof -
  have "find (\<lambda>z. key z = key x) tbl = None"
    using assms by (auto simp: find_None_iff image_iff)
  then show ?thesis
    unfolding ddb_get_def by (simp add: find_append_new)
qed

lemma ddb_put_last:
  assumes "key x \<notin> key ` set tbl" and "key y = key x"
  shows "ddb_put key y (tbl @ [x]) = tbl @ [y]"
proof -
  have "map (\<lambda>z. if key z = key y then y else z) tbl = tbl"
    using assms by (intro map_idI) (auto simp: image_iff)
  then show ?thesis
    using assms unfolding ddb_put_def by (simp add: list_ex_iff)
qed



section \<open>Thread status\<close>

text \<open>
  C2, as the code has it. \<open>ThreadService.updateStatus\<close> has no state machine: for every
  stored thread, whatever its status, and every requested status, the call succeeds and
  the stored status becomes the requested one (with \<open>updatedAt\<close> set to the clock). The
  only rejection is \<open>Thread not found\<close>, for an id that matches no stored thread.
\<close>

theorem threadService_updateStatus_overwrites:
  "(threadRepository_getById tid w = None \<longrightarrow>
      threadService_updateStatus tid status now w = Inl (Error ''Thread not found''))
   \<and> (threadRepository_getById tid w = Some thread \<longrightarrow>
      threadService_updateStatus tid status now w =
        Inr (threadRepository_save (thread\<lparr>t_status := status, t_updatedAt := now\<rparr>) w)
      \<and> threadRepository_getById tid
           (threadRepository_save (thread\<lparr>t_status := status, t_updatedAt := now\<rparr>) w) =
          Some (thread\<lparr>t_status := status, t_updatedAt := now\<rparr>))"
proof (intro conjI impI)
  assume "threadRepository_getById tid w = None"
  then show "threadService_updateStatus tid status now w = Inl (Error ''Thread not found'')"
    by (simp add: threadService_updateStatus_def)
next
  assume found: "threadRepository_getById tid w = Some thread"
  then show "threadService_updateStatus tid status now w =
        Inr (threadRepository_save (thread\<lparr>t_status := status, t_updatedAt := now\<rparr>) w)"
    by (simp add: threadService_updateStatus_def)
  have k: "threadId thread = tid"
    using found ddb_get_SomeD[of threadId tid "threads w" thread]
    by (simp add: threadRepository_getById_def)
  have "ddb_get threadId (threadId (thread\<lparr>t_status := status, t_updatedAt := now\<rparr>))
          (ddb_put threadId (thread\<lparr>t_status := status, t_updatedAt := now\<rparr>) (threads w)) =
        Some (thread\<lparr>t_status := status, t_updatedAt := now\<rparr>)"
    by (rule ddb_get_put_same)
  then show "threadRepository_getById tid
           (threadRepository_save (thread\<lparr>t_status := status, t_updatedAt := now\<rparr>) w) =
          Some (thread\<lparr>t_status := status, t_updatedAt := now\<rparr>)"
    using k by (simp add: threadRepository_getById_def threadRepository_save_def)
qed

text \<open>
  The closed thread of the small world is moved to \<open>pending\<close>; a thread that does not
  exist is not.
\<close>

theorem threadService_updateStatus_overwrites_witness:
  "threadRepository_getById ''thread-9'' seed_world = None
   \<and> threadService_updateStatus ''thread-9'' Pending ''2025-03-01T00:00:00.000Z'' seed_world =
       Inl (Error ''Thread not found'')
   \<and> threadRepository_getById ''thread-1'' seed_world = Some closed_thread
   \<and> threadService_updateStatus ''thread-1'' Pending ''2025-03-01T00:00:00.000Z'' seed_world =
       Inr (threadRepository_save
              (closed_thread\<lparr>t_status := Pending, t_updatedAt := ''2025-03-01T00:00:00.000Z''\<rparr>)
              seed_world)
   \<and> threadRepository_getById ''thread-1''
         (threadRepository_save
            (closed_thread\<lparr>t_status := Pending, t_updatedAt := ''2025-03-01T00:00:00.000Z''\<rparr>)
            seed_world) =
       Some (closed_thread\<lparr>t_status := Pending, t_updatedAt := ''2025-03-01T00:00:00.000Z''\<rparr>)"
proof -
  have n: "threadRepository_getById ''thread-9'' seed_world = None"
    by (simp add: ex_defs store_defs)
  have h: "threadRepository_getById ''thread-1'' seed_world = Some closed_thread"
    by (simp add: ex_defs store_defs)
  from threadService_updateStatus_overwrites[of "''thread-9''" seed_world Pending
      "''2025-03-01T00:00:00.000Z''"]
    threadService_updateStatus_overwrites[of "''thread-1''" seed_world Pending
      "''2025-03-01T00:00:00.000Z''" closed_thread] n h
  show ?thesis by blast
qed

text \<open>
  C2 as stated fails: a request to reopen the closed thread is accepted, and the stored
  status is \<open>open\<close> afterwards.
\<close>

theorem closed_thread_reopened:
  "threadRepository_getById ''thread-1'' seed_world = Some closed_thread
   \<and> t_status closed_thread = Closed
   \<and> threadService_updateStatus ''thread-1'' Open ''2025-03-01T00:00:00.000Z'' seed_world =
       Inr (seed_world\<lparr>threads :=
              [closed_thread\<lparr>t_status := Open, t_updatedAt := ''2025-03-01T00:00:00.000Z''\<rparr>,
               email_thread]\<rparr>)"
  by (simp add: threadService_updateStatus_def ex_defs store_defs)


section \<open>Message status\<close>

text \<open>
  C7, as the code has it. \<open>MessageService.updateStatus\<close> compares nothing: for every
  stored message, whatever its status, and every requested status, the call succeeds
  and the stored status becomes the requested one. The only rejection is
  \<open>Message not found\<close>, for an id that matches no stored message.
\<close>

theorem messageService_updateStatus_overwrites:
  "(messageRepository_getById mid w = None \<longrightarrow>
      messageService_updateStatus mid status w = Inl (Error ''Message not found''))
   \<and> (messageRepository_getById mid w = Some message \<longrightarrow>
      messageService_updateStatus mid status w =
        Inr (messageRepository_save (message\<lparr>m_status := status\<rparr>) w)
      \<and> messageRepository_getById mid
           (messageRepository_save (message\<lparr>m_status := status\<rparr>) w) =
          Some (message\<lparr>m_status := status\<rparr>))"
proof (intro conjI impI)
  assume "messageRepository_getById mid w = None"
  then show "messageService_updateStatus mid status w = Inl (Error ''Message not found'')"
    by (simp add: messageService_updateStatus_def)
next
  assume found: "messageRepository_getById mid w = Some message"
  then show "messageService_updateStatus mid status w =
        Inr (messageRepository_save (message\<lparr>m_status := status\<rparr>) w)"
    by (simp add: messageService_updateStatus_def)
  have k: "messageId message = mid"
    using found ddb_get_SomeD[of messageId mid "messages w" message]
    by (simp add: messageRepository_getById_def)
  have "ddb_get messageId (messageId (message\<lparr>m_status := status\<rparr>))
          (ddb_put messageId (message\<lparr>m_status := status\<rparr>) (messages w)) =
        Some (message\<lparr>m_status := status\<rparr>)"
    by (rule ddb_get_put_same)
  then show "messageRepository_getById mid
           (messageRepository_save (message\<lparr>m_status := status\<rparr>) w) =
          Some (message\<lparr>m_status := status\<rparr>)"
    using k by (simp add: messageRepository_getById_def messageRepository_save_def)
qed

text \<open>
  The sent message of the small world is marked delivered; a message that does not exist
  is not.
\<close>

theorem messageService_updateStatus_overwrites_witness:
  "messageRepository_getById ''message-9'' seed_world = None
   \<and> messageService_updateStatus ''message-9'' Delivered seed_world =
       Inl (Error ''Message not found'')
   \<and> messageRepository_getById ''message-1'' seed_world = Some sent_message
   \<and> messageService_updateStatus ''message-1'' Delivered seed_world =
       Inr (messageRepository_save (sent_message\<lparr>m_status := Delivered\<rparr>) seed_world)
   \<and> messageRepository_getById ''message-1''
         (messageRepository_save (sent_message\<lparr>m_status := Delivered\<rparr>) seed_world) =
       Some (sent_message\<lparr>m_status := Delivered\<rparr>)"
proof -
  have n: "messageRepository_getById ''message-9'' seed_world = None"
    by (simp add: ex_defs store_defs)
  have h: "messageRepository_getById ''message-1'' seed_world = Some sent_message"
    by (simp add: ex_defs store_defs)
  from messageService_updateStatus_overwrites[of "''message-9''" seed_world Delivered]
    messageService_updateStatus_overwrites[of "''message-1''" seed_world Delivered sent_message]
    n h
  show ?thesis by blast
qed

text \<open>
  C7 as stated fails: the message whose status is \<open>sent\<close> is set back to \<open>pending\<close>.
\<close>

theorem sent_message_back_to_pending:
  "messageRepository_getById ''message-1'' seed_world = Some sent_message
   \<and> m_status sent_message = Sent
   \<and> messageService_updateStatus ''message-1'' MsgPending seed_world =
       Inr (seed_world\<lparr>messages := [sent_message\<lparr>m_status := MsgPending\<rparr>]\<rparr>)"
  by (simp add: messageService_updateStatus_def ex_defs store_defs)


section \<open>Attaching identifiers\<close>

lemma customerId_mapToCustomer: "customerId (mapToCustomer it) = customer_id it"
  by (cases it) simp_all

lemma index_key_neq: "cid @ ''#'' @ rest \<noteq> cid"
  by (metis append_self_conv list.distinct(1) append_is_Nil_conv)

lemma get_save_index_records:
  "ddb_get customer_id cid (save_index_records cid ids tbl) = ddb_get customer_id cid tbl"
  by (induction ids arbitrary: tbl)
     (simp_all add: ddb_get_put_other index_key_neq[symmetric] del: append.simps)

lemma getById_save:
  "customerRepository_getById (customerId c) (customerRepository_save c w) = Some c"
  unfolding customerRepository_getById_def customerRepository_save_def
  using ddb_get_put_same[of customer_id "MainRecord c" "customers w"]
  by (simp add: get_save_index_records)

lemma addIdentifier_again:
  assumes "addIdentifier cid identifier now w = Inr w1"
  shows "addIdentifier cid identifier now' w1 = Inr w1"
proof (cases "customerRepository_getById cid w")
  case None
  with assms show ?thesis by (simp add: addIdentifier_def)
next
  case (Some customer)
  have cid: "customerId customer = cid"
    using Some ddb_get_SomeD[of customer_id cid "customers w"]
    by (auto simp: customerRepository_getById_def customerId_mapToCustomer)
  show ?thesis
  proof (cases "list_ex (\<lambda>i. i_type i = i_type identifier \<and> i_value i = i_value identifier)
                  (identifiers customer)")
    case True
    with assms Some show ?thesis by (simp add: addIdentifier_def)
  next
    case False
    let ?c = "customer\<lparr>identifiers := identifiers customer @ [identifier],
                       c_updatedAt := Some now\<rparr>"
    have w1: "w1 = customerRepository_save ?c w"
      using assms Some False by (simp add: addIdentifier_def)
    have "customerRepository_getById cid w1 = Some ?c"
      using getById_save[of ?c w] cid w1 by simp
    then show ?thesis
      by (simp add: addIdentifier_def list_ex_iff)
  qed
qed

text \<open>
  C5, as the code has it. \<open>addIdentifier\<close> looks at the identifiers of the customer it
  is called for and at nothing else. For every stored customer B that does not hold the
  pair (type, value) itself - whether or not another customer owns it -
  \<open>addIdentifier\<close> raises no error, appends the identifier to B's list and saves B. The
  only error is \<open>Customer not found\<close>, for an id that matches no stored customer.
\<close>

theorem addIdentifier_appends_without_conflict_check:
  "(customerRepository_getById cid w = None \<longrightarrow>
      addIdentifier cid identifier now w = Inl (Error ''Customer not found''))
   \<and> (customerRepository_getById cid w = Some customer
      \<and> \<not> list_ex (\<lambda>i. i_type i = i_type identifier \<and> i_value i = i_value identifier)
             (identifiers customer) \<longrightarrow>
      addIdentifier cid identifier now w =
        Inr (customerRepository_save
               (customer\<lparr>identifiers := identifiers customer @ [identifier],
                         c_updatedAt := Some now\<rparr>) w)
      \<and> customerRepository_getById cid
           (customerRepository_save
              (customer\<lparr>identifiers := identifiers customer @ [identifier],
                        c_updatedAt := Some now\<rparr>) w) =
          Some (customer\<lparr>identifiers := identifiers customer @ [identifier],
                         c_updatedAt := Some now\<rparr>))"
proof (intro conjI impI)
  assume "customerRepository_getById cid w = None"
  then show "addIdentifier cid identifier now w = Inl (Error ''Customer not found'')"
    by (simp add: addIdentifier_def)
next
  assume a: "customerRepository_getById cid w = Some customer
      \<and> \<not> list_ex (\<lambda>i. i_type i = i_type identifier \<and> i_value i = i_value identifier)
             (identifiers customer)"
  then show "addIdentifier cid identifier now w =
        Inr (customerRepository_save
               (customer\<lparr>identifiers := identifiers customer @ [identifier],
                         c_updatedAt := Some now\<rparr>) w)"
    by (simp add: addIdentifier_def)
  have cid: "customerId customer = cid"
    using a ddb_get_SomeD[of customer_id cid "customers w"]
    by (auto simp: customerRepository_getById_def customerId_mapToCustomer)
  show "customerRepository_getById cid
           (customerRepository_save
              (customer\<lparr>identifiers := identifiers customer @ [identifier],
                        c_updatedAt := Some now\<rparr>) w) =
          Some (customer\<lparr>identifiers := identifiers customer @ [identifier],
                         c_updatedAt := Some now\<rparr>)"
    using cid
      getById_save[of "customer\<lparr>identifiers := identifiers customer @ [identifier],
                              c_updatedAt := Some now\<rparr>" w]
    by simp
qed

text \<open>
  Bob is given the address that Alice owns; a customer that does not exist is given
  nothing.
\<close>

theorem addIdentifier_appends_without_conflict_check_witness:
  "customerRepository_getById ''customer-z'' seed_world = None
   \<and> addIdentifier ''customer-z'' alice_email ''2025-03-01T00:00:00.000Z'' seed_world =
       Inl (Error ''Customer not found'')
   \<and> customerRepository_getById ''customer-b'' seed_world = Some bob
   \<and> customerRepository_findByIdentifier Email ''alice@example.com'' seed_world = Some alice
   \<and> addIdentifier ''customer-b'' alice_email ''2025-03-01T00:00:00.000Z'' seed_world =
       Inr (customerRepository_save
              (bob\<lparr>identifiers := identifiers bob @ [alice_email],
                   c_updatedAt := Some ''2025-03-01T00:00:00.000Z''\<rparr>) seed_world)
   \<and> customerRepository_getById ''customer-b''
         (customerRepository_save
            (bob\<lparr>identifiers := identifiers bob @ [alice_email],
                 c_updatedAt := Some ''2025-03-01T00:00:00.000Z''\<rparr>) seed_world) =
       Some (bob\<lparr>identifiers := identifiers bob @ [alice_email],
                  c_updatedAt := Some ''2025-03-01T00:00:00.000Z''\<rparr>)"
proof -
  have n: "customerRepository_getById ''customer-z'' seed_world = None"
    by (simp add: ex_defs store_defs)
  have h1: "customerRepository_getById ''customer-b'' seed_world = Some bob"
    by (simp add: ex_defs store_defs)
  have h2: "\<not> list_ex (\<lambda>i. i_type i = i_type alice_email \<and> i_value i = i_value alice_email)
             (identifiers bob)"
    by (simp add: ex_defs alice_email_def)
  have h3: "customerRepository_findByIdentifier Email ''alice@example.com'' seed_world =
              Some alice"
    by (simp add: ex_defs store_defs)
  from addIdentifier_appends_without_conflict_check[of "''customer-z''" seed_world alice_email
      "''2025-03-01T00:00:00.000Z''"]
    addIdentifier_appends_without_conflict_check[of "''customer-b''" seed_world alice_email
      "''2025-03-01T00:00:00.000Z''" bob] n h1 h2 h3
  show ?thesis by blast
qed

text \<open>
  C5 as stated fails: Alice owns the address, Bob is another customer, and attaching
  the address to Bob returns normally with Bob's identifier list one entry longer (and
  an index record for the pair under Bob's id).
\<close>

theorem identifier_of_alice_attached_to_bob:
  "customerRepository_findByIdentifier Email ''alice@example.com'' seed_world = Some alice
   \<and> customerRepository_getById ''customer-b'' seed_world = Some bob
   \<and> customerId alice \<noteq> customerId bob
   \<and> addIdentifier ''customer-b'' alice_email ''2025-03-01T00:00:00.000Z'' seed_world =
       Inr (seed_world\<lparr>customers :=
              [MainRecord alice,
               MainRecord (bob\<lparr>identifiers := identifiers bob @ [alice_email],
                                c_updatedAt := Some ''2025-03-01T00:00:00.000Z''\<rparr>),
               IndexRecord ''customer-b#email#alice@example.com'' Email ''alice@example.com''
                 ''customer-b'']\<rparr>)"
  by (simp add: addIdentifier_def ex_defs alice_email_def store_defs)

text \<open>
  C9. When the customer already holds the pair (type, value), \<open>addIdentifier\<close> returns
  normally and leaves the world as it is; and after any call that returned normally, a
  second call with the same customer and identifier returns normally and changes
  nothing, so two calls leave the state that one call leaves and no entry is doubled.
\<close>

theorem addIdentifier_idempotent:
  "(customerRepository_getById cid w = Some customer
      \<and> list_ex (\<lambda>i. i_type i = i_type identifier \<and> i_value i = i_value identifier)
           (identifiers customer) \<longrightarrow>
      addIdentifier cid identifier now w = Inr w)
   \<and> (addIdentifier cid identifier now w = Inr w1 \<longrightarrow>
      addIdentifier cid identifier now' w1 = Inr w1)"
proof (intro conjI impI)
  assume "customerRepository_getById cid w = Some customer
      \<and> list_ex (\<lambda>i. i_type i = i_type identifier \<and> i_value i = i_value identifier)
           (identifiers customer)"
  then show "addIdentifier cid identifier now w = Inr w"
    by (simp add: addIdentifier_def)
next
  assume "addIdentifier cid identifier now w = Inr w1"
  then show "addIdentifier cid identifier now' w1 = Inr w1"
    by (rule addIdentifier_again)
qed

text \<open>
  Alice's own address is attached to Alice: nothing changes. A telephone number is
  attached to Bob twice: the second call changes nothing.
\<close>

theorem addIdentifier_idempotent_witness:
  "customerRepository_getById ''customer-a'' seed_world = Some alice
   \<and> list_ex (\<lambda>i. i_type i = i_type alice_email \<and> i_value i = i_value alice_email)
        (identifiers alice)
   \<and> addIdentifier ''customer-a'' alice_email ''2025-03-01T00:00:00.000Z'' seed_world =
       Inr seed_world
   \<and> addIdentifier ''customer-b'' bob_phone ''2025-03-01T00:00:00.000Z'' seed_world =
       Inr with_phone
   \<and> addIdentifier ''customer-b'' bob_phone ''2025-03-02T00:00:00.000Z'' with_phone =
       Inr with_phone"
proof -
  have h1: "customerRepository_getById ''customer-a'' seed_world = Some alice"
    by (simp add: ex_defs store_defs)
  have h2: "list_ex (\<lambda>i. i_type i = i_type alice_email \<and> i_value i = i_value alice_email)
        (identifiers alice)"
    by (simp add: ex_defs alice_email_def)
  have a: "addIdentifier ''customer-a'' alice_email ''2025-03-01T00:00:00.000Z'' seed_world =
       Inr seed_world"
    using addIdentifier_idempotent[of "''customer-a''" seed_world alice alice_email
        "''2025-03-01T00:00:00.000Z''"] h1 h2 by blast
  have b: "addIdentifier ''customer-b'' bob_phone ''2025-03-01T00:00:00.000Z'' seed_world =
       Inr with_phone"
    by (simp add: addIdentifier_def with_phone_def bob_phone_def ex_defs store_defs)
  have c: "addIdentifier ''customer-b'' bob_phone ''2025-03-02T00:00:00.000Z'' with_phone =
       Inr with_phone"
    using addIdentifier_idempotent[of "''customer-b''" seed_world bob bob_phone
        "''2025-03-01T00:00:00.000Z''" with_phone "''2025-03-02T00:00:00.000Z''"] b by blast
  show ?thesis using h1 h2 a b c by simp
qed


section \<open>The inbound pipeline: what a call stores\<close>



lemma findActive_none:
  assumes "\<forall>t\<in>set (threads w). t_customerId t \<noteq> cid"
  shows "findActiveByCustomerAndChannel cid ch w = None"
proof -
  have "filter (\<lambda>t. t_customerId t = cid) (rev (threads w)) = []"
    using assms by (simp add: filter_empty_conv)
  then show ?thesis
    unfolding findActiveByCustomerAndChannel_def ddb_query_def by simp
qed


lemma resolveCustomer_new:
  assumes "customerRepository_findByIdentifier (identifierType raw) (identifierValue raw) w = None"
    and "uuid_customer rt \<notin> customer_id ` set (customers w)"
  shows "resolveCustomer rt raw w =
           (newCustomer rt raw, w\<lparr>customers := customers w @ [MainRecord (newCustomer rt raw)]\<rparr>)"
  using assms
  by (simp add: resolveCustomer_def customerService_create_def customerRepository_save_def
      ddb_put_fresh newCustomer_def Let_def)

lemma resolveThread_new:
  assumes "\<forall>t\<in>set (threads w). t_customerId t \<noteq> customerId c"
    and "uuid_thread rt \<notin> threadId ` set (threads w)"
  shows "resolveThread rt raw c w =
           (newThread rt raw c, w\<lparr>threads := threads w @ [newThread rt raw c]\<rparr>)"
  using assms
  by (simp add: resolveThread_def findActive_none threadService_create_def
      threadRepository_save_def ddb_put_fresh newThread_def Let_def)


lemma updateLastMessage_last:
  assumes "threads w = ts @ [t]" and "threadId t \<notin> threadId ` set ts"
  shows "updateLastMessage (threadId t) m now w =
           Inr (w\<lparr>threads := ts @ [afterMessage m now t]\<rparr>)"
proof -
  have "threadRepository_getById (threadId t) w = Some t"
    using assms ddb_get_last[of threadId t ts] by (simp add: threadRepository_getById_def)
  moreover have "ddb_put threadId (afterMessage m now t) (ts @ [t]) = ts @ [afterMessage m now t]"
    using assms(2) by (intro ddb_put_last) (simp_all add: afterMessage_def)
  ultimately show ?thesis
    using assms(1)
    by (simp add: updateLastMessage_def threadRepository_save_def afterMessage_def)
qed

lemma store_fresh:
  assumes "messageId m \<notin> messageId ` set (messages w)"
  shows "messageService_store m w = w\<lparr>messages := messages w @ [m]\<rparr>"
  using assms
  by (simp add: messageService_store_def messageRepository_save_def ddb_put_fresh)

text \<open>Steps 1 to 4 for an identifier that no stored customer has.\<close>

lemma persistInbound_new:
  assumes "customerRepository_findByIdentifier (identifierType raw) (identifierValue raw) w = None"
    and "uuid_customer rt \<notin> customer_id ` set (customers w)"
    and "\<forall>t\<in>set (threads w). t_customerId t \<noteq> uuid_customer rt"
    and "uuid_thread rt \<notin> threadId ` set (threads w)"
    and "uuid_message rt \<notin> messageId ` set (messages w)"
  defines "c \<equiv> newCustomer rt raw"
  defines "t0 \<equiv> newThread rt raw c"
  defines "m \<equiv> inboundMessage rt raw c t0"
  shows "persistInbound rt raw w =
           (Inr (m, c, t0),
            w\<lparr>customers := customers w @ [MainRecord c],
              threads := threads w @ [afterMessage m (now_updateLastMessage rt) t0],
              messages := messages w @ [m]\<rparr>)"
proof -
  let ?w1 = "w\<lparr>customers := customers w @ [MainRecord c]\<rparr>"
  let ?w2 = "?w1\<lparr>threads := threads w @ [t0]\<rparr>"
  let ?w3 = "?w2\<lparr>messages := messages w @ [m]\<rparr>"
  have cid: "customerId c = uuid_customer rt" by (simp add: c_def newCustomer_def)
  have tid: "threadId t0 = uuid_thread rt" by (simp add: t0_def newThread_def)
  have mid: "messageId m = uuid_message rt" by (simp add: m_def inboundMessage_def)
  have s1: "resolveCustomer rt raw w = (c, ?w1)"
    unfolding c_def using assms(1,2) by (rule resolveCustomer_new)
  have s2: "resolveThread rt raw c ?w1 = (t0, ?w2)"
    using resolveThread_new[of ?w1 c rt raw] assms(3,4) cid by (simp add: t0_def)
  have s3: "messageService_store m ?w2 = ?w3"
    using store_fresh[of m ?w2] assms(5) mid by simp
  have s4: "updateLastMessage (threadId t0) m (now_updateLastMessage rt) ?w3 =
              Inr (?w3\<lparr>threads := threads w @ [afterMessage m (now_updateLastMessage rt) t0]\<rparr>)"
    using updateLastMessage_last[of ?w3 "threads w" t0] assms(4) tid by simp
  show ?thesis
    unfolding persistInbound_def
    by (simp add: s1 s2 s3 s4 m_def[symmetric])
qed


text \<open>
  The notification for the thread stored last: it returns normally, and of the three
  tables it can only touch that thread's Lark fields and \<open>updatedAt\<close>.
\<close>

lemma sendMessageNotification_last:
  assumes "threads w = ts @ [t']" and "threadId t' = threadId t"
    and "threadId t \<notin> threadId ` set ts"
  shows "fst (sendMessageNotification m c t d cr now w) = Inr ()
       \<and> customers (snd (sendMessageNotification m c t d cr now w)) = customers w
       \<and> messages (snd (sendMessageNotification m c t d cr now w)) = messages w
       \<and> (\<exists>g l u. threads (snd (sendMessageNotification m c t d cr now w)) =
             ts @ [t'\<lparr>larkGroupId := g, larkMessageId := l, t_updatedAt := u\<rparr>])"
proof -
  let ?w1 = "w\<lparr>lark_calls := lark_calls w @ [MessageCreate (or_else (larkGroupId t) d) m]\<rparr>"
  have set1: "setLarkInfo (threadId t) g msgId now ?w1 =
        Inr (?w1\<lparr>threads := ts @ [t'\<lparr>larkGroupId := Some g, larkMessageId := Some msgId,
                                      t_updatedAt := now\<rparr>]\<rparr>)" for g msgId
  proof -
    have "threadRepository_getById (threadId t) ?w1 = Some t'"
      using assms ddb_get_last[of threadId t' ts]
      by (simp add: threadRepository_getById_def)
    moreover have "ddb_put threadId (t'\<lparr>larkGroupId := Some g, larkMessageId := Some msgId,
                                     t_updatedAt := now\<rparr>) (ts @ [t']) =
                   ts @ [t'\<lparr>larkGroupId := Some g, larkMessageId := Some msgId,
                           t_updatedAt := now\<rparr>]"
      using assms(2,3) by (intro ddb_put_last) simp_all
    ultimately show ?thesis
      using assms(1) by (simp add: setLarkInfo_def threadRepository_save_def)
  qed
  have keep: "\<exists>g l u. ts @ [t'] =
                ts @ [t'\<lparr>larkGroupId := g, larkMessageId := l, t_updatedAt := u\<rparr>]"
    by (intro exI[of _ "larkGroupId t'"] exI[of _ "larkMessageId t'"]
          exI[of _ "t_updatedAt t'"])
       simp
  show ?thesis
  proof (cases "or_else (larkGroupId t) d = []")
    case True
    then have "sendMessageNotification m c t d cr now w = (Inr (), w)"
      by (simp add: sendMessageNotification_def Let_def)
    then show ?thesis using assms(1) keep by simp
  next
    case group: False
    show ?thesis
    proof (cases "l_messageId (sendInteractiveCard cr)")
      case None
      then have "sendMessageNotification m c t d cr now w = (Inr (), ?w1)"
        using group by (simp add: sendMessageNotification_def Let_def)
      then show ?thesis using assms(1) keep by simp
    next
      case (Some msgId)
      show ?thesis
      proof (cases "msgId \<noteq> [] \<and> \<not> truthy (larkMessageId t)")
        case True
        then have "sendMessageNotification m c t d cr now w =
           (Inr (), ?w1\<lparr>threads := ts @ [t'\<lparr>larkGroupId := Some (or_else (larkGroupId t) d),
                                             larkMessageId := Some msgId,
                                             t_updatedAt := now\<rparr>]\<rparr>)"
          using group Some by (simp add: sendMessageNotification_def Let_def set1)
        then show ?thesis by auto
      next
        case False
        then have "sendMessageNotification m c t d cr now w = (Inr (), ?w1)"
          using group Some by (auto simp add: sendMessageNotification_def Let_def)
        then show ?thesis using assms(1) keep by simp
      qed
    qed
  qed
qed

lemma processMessage_new:
  assumes "customerRepository_findByIdentifier (identifierType raw) (identifierValue raw) w = None"
    and "uuid_customer rt \<notin> customer_id ` set (customers w)"
    and "\<forall>t\<in>set (threads w). t_customerId t \<noteq> uuid_customer rt"
    and "uuid_thread rt \<notin> threadId ` set (threads w)"
    and "uuid_message rt \<notin> messageId ` set (messages w)"
  defines "c \<equiv> newCustomer rt raw"
  defines "m \<equiv> inboundMessage rt raw c (newThread rt raw c)"
  defines "ta \<equiv> afterMessage m (now_updateLastMessage rt) (newThread rt raw c)"
  shows "fst (processMessage rt raw w) = Inr ()
       \<and> customers (snd (processMessage rt raw w)) = customers w @ [MainRecord c]
       \<and> messages (snd (processMessage rt raw w)) = messages w @ [m]
       \<and> (\<exists>g l u. threads (snd (processMessage rt raw w)) =
             threads w @ [ta\<lparr>larkGroupId := g, larkMessageId := l, t_updatedAt := u\<rparr>])"
proof -
  define wp where "wp = w\<lparr>customers := customers w @ [MainRecord c],
                         threads := threads w @ [ta], messages := messages w @ [m]\<rparr>"
  have tid: "threadId (newThread rt raw c) = uuid_thread rt" by (simp add: newThread_def)
  have p1: "persistInbound rt raw w = (Inr (m, c, newThread rt raw c), wp)"
    unfolding m_def c_def wp_def ta_def
    using assms(1-5) by (rule persistInbound_new)
  have pm1: "processMessage rt raw w =
               sendMessageNotification m c (newThread rt raw c) (LARK_DEFAULT_GROUP_ID rt)
                 (lark_message_create rt) (now_setLarkInfo rt) wp"
    by (simp add: processMessage_def p1)
  show ?thesis
    unfolding pm1
    using sendMessageNotification_last[of wp "threads w" ta "newThread rt raw c" m c
        "LARK_DEFAULT_GROUP_ID rt" "lark_message_create rt" "now_setLarkInfo rt"] assms(4) tid
    by (simp add: wp_def ta_def afterMessage_def)
qed








text \<open>What \<open>processMessage\<close> does to the customers table.\<close>

lemma resolveThread_customers: "customers (snd (resolveThread rt raw c w)) = customers w"
  by (simp add: resolveThread_def threadService_create_def threadRepository_save_def Let_def
      split: option.splits)

lemma updateLastMessage_customers:
  "updateLastMessage tid m now w = Inr w' \<Longrightarrow> customers w' = customers w"
  by (auto simp: updateLastMessage_def threadRepository_save_def split: option.splits)

lemma setLarkInfo_customers:
  "setLarkInfo tid g l now w = Inr w' \<Longrightarrow> customers w' = customers w"
  by (auto simp: setLarkInfo_def threadRepository_save_def split: option.splits)

lemma sendMessageNotification_customers:
  "customers (snd (sendMessageNotification m c t d cr now w)) = customers w"
  by (auto simp: sendMessageNotification_def Let_def dest: setLarkInfo_customers
      split: option.splits sum.splits)

lemma persistInbound_customers:
  "customers (snd (persistInbound rt raw w)) = customers (snd (resolveCustomer rt raw w))"
proof -
  obtain c w1 where r1: "resolveCustomer rt raw w = (c, w1)"
    by (cases "resolveCustomer rt raw w")
  obtain t w2 where r2: "resolveThread rt raw c w1 = (t, w2)"
    by (cases "resolveThread rt raw c w1")
  have c2: "customers w2 = customers w1"
    using resolveThread_customers[of rt raw c w1] r2 by simp
  show ?thesis
    using r1 r2 c2
    by (auto simp: persistInbound_def Let_def messageService_store_def
        messageRepository_save_def
        dest: updateLastMessage_customers split: sum.splits)
qed

lemma processMessage_customers:
  "customers (snd (processMessage rt raw w)) = customers (snd (resolveCustomer rt raw w))"
proof (cases "persistInbound rt raw w")
  case (Pair r w4)
  then have "customers w4 = customers (snd (resolveCustomer rt raw w))"
    using persistInbound_customers[of rt raw w] by simp
  then show ?thesis
    using Pair
    by (cases r) (auto simp: processMessage_def sendMessageNotification_customers)
qed

text \<open>
  C3, as the code has it. \<open>processMessage\<close> never calls the rule engine: after storing
  the message and updating the thread it sends the Lark notification and returns. So
  no tag or priority action is applied: the customers table after the call is the one
  that the find-or-create step left. When the identifier belongs to a stored customer
  the table is unchanged; otherwise it has gained the new customer, who has no tag and
  is not VIP. (A thread record has no tag or priority field.)
\<close>

theorem processMessage_leaves_customer_records:
  "customers (snd (processMessage rt raw w)) = customers (snd (resolveCustomer rt raw w))
   \<and> (customerRepository_findByIdentifier (identifierType raw) (identifierValue raw) w = Some c
        \<longrightarrow> customers (snd (processMessage rt raw w)) = customers w)
   \<and> (customerRepository_findByIdentifier (identifierType raw) (identifierValue raw) w = None
        \<longrightarrow> customers (snd (processMessage rt raw w)) =
              customers (customerRepository_save (newCustomer rt raw) w)
            \<and> tags (newCustomer rt raw) = [] \<and> isVip (newCustomer rt raw) = False)"
  using processMessage_customers[of rt raw w]
  by (simp add: resolveCustomer_def customerService_create_def newCustomer_def Let_def)

text \<open>
  A message from Bob leaves the customers table of the small world as it is; a message
  from the unknown number adds a customer without tags.
\<close>

theorem processMessage_leaves_customer_records_witness:
  "customerRepository_findByIdentifier Line_id ''U123'' seed_world = Some bob
   \<and> customers (snd (processMessage first_run ping seed_world)) = customers seed_world
   \<and> customerRepository_findByIdentifier Phone ''+81900000001'' seed_world = None
   \<and> customers (snd (processMessage first_run hello seed_world)) =
       customers (customerRepository_save (newCustomer first_run hello) seed_world)
   \<and> tags (newCustomer first_run hello) = []"
proof -
  have h: "customerRepository_findByIdentifier (identifierType ping) (identifierValue ping)
             seed_world = Some bob"
    by (simp add: ex_defs ping_def store_defs)
  have n: "customerRepository_findByIdentifier (identifierType hello) (identifierValue hello)
             seed_world = None"
    by (simp add: ex_defs store_defs)
  have k: "identifierType ping = Line_id" "identifierValue ping = ''U123''"
    "identifierType hello = Phone" "identifierValue hello = ''+81900000001''"
    by (simp_all add: ping_def hello_def)
  have 1: "customers (snd (processMessage first_run ping seed_world)) = customers seed_world"
    using processMessage_leaves_customer_records[of first_run ping seed_world bob] h by blast
  have 2: "customers (snd (processMessage first_run hello seed_world)) =
             customers (customerRepository_save (newCustomer first_run hello) seed_world)
           \<and> tags (newCustomer first_run hello) = []"
    using processMessage_leaves_customer_records[of first_run hello seed_world] n by blast
  show ?thesis using h n 1 2 unfolding k by blast
qed

text \<open>
  C3 as stated fails. The message \<open>URGENT: call me back\<close> comes from an unknown
  telephone number. For the message, customer and thread of that call the rules loaded
  at start-up return a priority action and the tag action \<open>urgent\<close>; the call returns
  normally, and the customer it stored has no tag.
\<close>

theorem urgent_message_tags_nobody:
  "fst (persistInbound first_run urgent_hello seed_world) =
     Inr (urgent_message, caller, caller_thread)
   \<and> evaluate (loadRules []) monday_morning urgent_message caller caller_thread =
       Inr [\<lparr>action_type = Priority, params = [(''level'', ''high'')]\<rparr>,
            \<lparr>action_type = Tag, params = [(''tag'', ''urgent'')]\<rparr>]
   \<and> fst (processMessage first_run urgent_hello seed_world) = Inr ()
   \<and> customers (snd (processMessage first_run urgent_hello seed_world)) =
       [MainRecord alice, MainRecord bob, MainRecord caller]
   \<and> tags caller = []"
proof -
  have h1: "customerRepository_findByIdentifier (identifierType urgent_hello)
              (identifierValue urgent_hello) seed_world = None"
    by (simp add: ex_defs urgent_hello_def store_defs)
  have h2: "uuid_customer first_run \<notin> customer_id ` set (customers seed_world)"
    by (simp add: ex_defs)
  have h3: "\<forall>t\<in>set (threads seed_world). t_customerId t \<noteq> uuid_customer first_run"
    by (simp add: ex_defs)
  have h4: "uuid_thread first_run \<notin> threadId ` set (threads seed_world)"
    by (simp add: ex_defs)
  have h5: "uuid_message first_run \<notin> messageId ` set (messages seed_world)"
    by (simp add: ex_defs)
  have c: "newCustomer first_run urgent_hello = caller"
    by (simp add: newCustomer_def caller_def urgent_hello_def hello_def first_run_def
        or_else_def)
  have t: "newThread first_run urgent_hello caller = caller_thread"
    by (simp add: newThread_def caller_def caller_thread_def urgent_hello_def
        hello_def first_run_def)
  have m: "inboundMessage first_run urgent_hello caller caller_thread = urgent_message"
    by (simp add: inboundMessage_def caller_def caller_thread_def urgent_message_def
        urgent_hello_def hello_def first_run_def or_else_def or_else_opt_def)
  have p: "fst (persistInbound first_run urgent_hello seed_world) =
     Inr (urgent_message, caller, caller_thread)"
    using persistInbound_new[OF h1 h2 h3 h4 h5] by (simp add: c t m)
  have e: "evaluate (loadRules []) monday_morning urgent_message caller caller_thread =
       Inr [\<lparr>action_type = Priority, params = [(''level'', ''high'')]\<rparr>,
            \<lparr>action_type = Tag, params = [(''tag'', ''urgent'')]\<rparr>]"
    by code_simp
  have r: "fst (processMessage first_run urgent_hello seed_world) = Inr ()"
    "customers (snd (processMessage first_run urgent_hello seed_world)) =
       customers seed_world @ [MainRecord caller]"
    using processMessage_new[OF h1 h2 h3 h4 h5] by (simp_all add: c)
  show ?thesis
    using p e r by (simp add: seed_world_def caller_def)
qed


text \<open>
  C4. Let steps 1 to 4 of \<open>processMessage\<close> succeed, and let the request to Lark throw.
  \<open>LarkClient.sendInteractiveCard\<close> catches the throw, so \<open>processMessage\<close> returns
  normally, and the customers, threads and messages are those that steps 1 to 4 left.
\<close>

theorem processMessage_survives_lark_failure:
  assumes "lark_message_create rt = SdkThrows e"
    and "fst (persistInbound rt raw w) = Inr p"
  shows "fst (processMessage rt raw w) = Inr ()
       \<and> customers (snd (processMessage rt raw w)) = customers (snd (persistInbound rt raw w))
       \<and> threads (snd (processMessage rt raw w)) = threads (snd (persistInbound rt raw w))
       \<and> messages (snd (processMessage rt raw w)) = messages (snd (persistInbound rt raw w))"
proof -
  obtain m c t where p: "p = (m, c, t)" by (cases p)
  obtain w4 where pw: "persistInbound rt raw w = (Inr (m, c, t), w4)"
    using assms(2) p by (cases "persistInbound rt raw w") simp
  show ?thesis
    using assms(1) pw
    by (simp add: processMessage_def sendMessageNotification_def sendInteractiveCard_def
        Let_def)
qed

text \<open>The first SMS again, with a Lark request that fails.\<close>

theorem processMessage_survives_lark_failure_witness:
  "lark_message_create failing_run = SdkThrows ''ECONNRESET''
   \<and> fst (persistInbound failing_run hello seed_world) =
       Inr (inboundMessage failing_run hello (newCustomer failing_run hello)
              (newThread failing_run hello (newCustomer failing_run hello)),
            newCustomer failing_run hello,
            newThread failing_run hello (newCustomer failing_run hello))
   \<and> fst (processMessage failing_run hello seed_world) = Inr ()
   \<and> customers (snd (processMessage failing_run hello seed_world)) =
       customers (snd (persistInbound failing_run hello seed_world))
   \<and> threads (snd (processMessage failing_run hello seed_world)) =
       threads (snd (persistInbound failing_run hello seed_world))
   \<and> messages (snd (processMessage failing_run hello seed_world)) =
       messages (snd (persistInbound failing_run hello seed_world))
   \<and> length (messages (snd (processMessage failing_run hello seed_world))) = 2"
proof -
  have h1: "lark_message_create failing_run = SdkThrows ''ECONNRESET''"
    by (simp add: failing_run_def)
  have p: "persistInbound failing_run hello seed_world =
      (Inr (inboundMessage failing_run hello (newCustomer failing_run hello)
              (newThread failing_run hello (newCustomer failing_run hello)),
            newCustomer failing_run hello,
            newThread failing_run hello (newCustomer failing_run hello)),
       seed_world\<lparr>customers := customers seed_world @ [MainRecord (newCustomer failing_run hello)],
              threads := threads seed_world @
                [afterMessage (inboundMessage failing_run hello (newCustomer failing_run hello)
                    (newThread failing_run hello (newCustomer failing_run hello)))
                   (now_updateLastMessage failing_run)
                   (newThread failing_run hello (newCustomer failing_run hello))],
              messages := messages seed_world @
                [inboundMessage failing_run hello (newCustomer failing_run hello)
                    (newThread failing_run hello (newCustomer failing_run hello))]\<rparr>)"
    by (rule persistInbound_new) (simp_all add: ex_defs store_defs)
  then have h2: "fst (persistInbound failing_run hello seed_world) =
       Inr (inboundMessage failing_run hello (newCustomer failing_run hello)
              (newThread failing_run hello (newCustomer failing_run hello)),
            newCustomer failing_run hello,
            newThread failing_run hello (newCustomer failing_run hello))"
    by simp
  have l: "length (messages (snd (persistInbound failing_run hello seed_world))) = 2"
    using p by (simp add: seed_world_def)
  from processMessage_survives_lark_failure[OF h1 h2] h1 h2 l show ?thesis by simp
qed


section \<open>The outbound pipeline: dispatch and failure\<close>

lemma updateMessageStatus_stores:
  "customers (updateMessageStatus t r p w) = customers w"
  "threads (updateMessageStatus t r p w) = threads w"
  "messages (updateMessageStatus t r p w) = messages w"
  "provider_calls (updateMessageStatus t r p w) = provider_calls w"
  by (simp_all add: updateMessageStatus_def Let_def split: option.splits)

lemma routeToChannel_stores:
  "customers (snd (routeToChannel rt request thread w)) = customers w"
  "threads (snd (routeToChannel rt request thread w)) = threads w"
  "messages (snd (routeToChannel rt request thread w)) = messages w"
  by (simp_all add: routeToChannel_def callClient_def split: ChannelProvider.splits)

lemma sendReply_not_found:
  assumes "threadRepository_getById (req_threadId request) w = None"
  shows "sendReply rt request w =
       (Inr \<lparr>success = False, sr_messageId = None, sr_externalMessageId = None,
             sr_error = Some ''Thread not found'', sr_timestamp = now_result rt\<rparr>, w)"
  using assms by (simp add: sendReply_def)

lemma sendReply_unsuccessful:
  assumes "threadRepository_getById (req_threadId request) w = Some thread"
    and "\<not> success (fst (routeToChannel rt request thread w))"
  shows "fst (sendReply rt request w) = Inr (fst (routeToChannel rt request thread w))
       \<and> customers (snd (sendReply rt request w)) = customers w
       \<and> threads (snd (sendReply rt request w)) = threads w
       \<and> messages (snd (sendReply rt request w)) = messages w"
  using assms
  by (simp add: sendReply_def split_beta updateMessageStatus_stores routeToChannel_stores)

lemma updateLastMessage_found:
  assumes "threadRepository_getById tid w = Some thread"
  shows "\<exists>w'. updateLastMessage tid m now w = Inr w'"
  using assms by (simp add: updateLastMessage_def)

text \<open>For a stored thread \<open>sendReply\<close> returns what the routing step produced.\<close>

lemma sendReply_returns:
  assumes "threadRepository_getById (req_threadId request) w = Some thread"
  shows "fst (sendReply rt request w) = Inr (fst (routeToChannel rt request thread w))"
proof (cases "success (fst (routeToChannel rt request thread w))")
  case False
  then show ?thesis using sendReply_unsuccessful[OF assms] by simp
next
  case True
  obtain r w1 where rw: "routeToChannel rt request thread w = (r, w1)"
    by (cases "routeToChannel rt request thread w")
  let ?m = "outboundMessage rt request thread r"
  have tid: "threadId thread = req_threadId request"
    using assms ddb_get_SomeD[of threadId "req_threadId request" "threads w" thread]
    by (simp add: threadRepository_getById_def)
  have "threads w1 = threads w"
    using routeToChannel_stores(2)[of rt request thread w] rw by simp
  then have "threadRepository_getById (threadId thread) (messageService_store ?m w1) =
               Some thread"
    using assms tid
    by (simp add: threadRepository_getById_def messageService_store_def
        messageRepository_save_def)
  then obtain w3 where
    "updateLastMessage (threadId thread) ?m (now_outUpdate rt) (messageService_store ?m w1) =
       Inr w3"
    using updateLastMessage_found by blast
  then show ?thesis
    using assms True rw by (simp add: sendReply_def Let_def)
qed

lemma updateLastMessage_provider_calls:
  "updateLastMessage tid m now w = Inr w' \<Longrightarrow> provider_calls w' = provider_calls w"
  by (auto simp: updateLastMessage_def threadRepository_save_def split: option.splits)

lemma sendReply_provider_calls:
  assumes "threadRepository_getById (req_threadId request) w = Some thread"
  shows "provider_calls (snd (sendReply rt request w)) =
         provider_calls (snd (routeToChannel rt request thread w))"
  using assms
  by (auto simp: sendReply_def Let_def split_beta updateMessageStatus_stores
      messageService_store_def messageRepository_save_def
      dest: updateLastMessage_provider_calls split: sum.splits)

text \<open>
  C6. (1) When the thread id matches no stored thread, \<open>sendReply\<close> returns
  \<open>{success: false, error: 'Thread not found'}\<close> and the world, the log of client calls
  included, is unchanged. (2) When the thread is stored and the call to the client of
  its channel throws an \<open>Error\<close>, \<open>sendReply\<close> returns \<open>{success: false, error:\<close> the
  message of the error \<open>}\<close>, and messages and threads are unchanged. (3) Whenever the
  result that \<open>sendReply\<close> returns has \<open>success = false\<close>, messages and threads are
  unchanged.
\<close>

theorem sendReply_persists_nothing_on_failure:
  "(threadRepository_getById (req_threadId request) w = None \<longrightarrow>
      sendReply rt request w =
        (Inr \<lparr>success = False, sr_messageId = None, sr_externalMessageId = None,
              sr_error = Some ''Thread not found'', sr_timestamp = now_result rt\<rparr>, w))
   \<and> (threadRepository_getById (req_threadId request) w = Some thread
      \<and> CHANNEL_PROVIDERS (t_channel thread) \<noteq> Direct
      \<and> client_sendMessage rt (CHANNEL_PROVIDERS (t_channel thread)) thread (req_content request)
           (if CHANNEL_PROVIDERS (t_channel thread) = LinkedIn then None
            else req_attachments request) = SendThrows e \<longrightarrow>
      fst (sendReply rt request w) =
        Inr \<lparr>success = False, sr_messageId = None, sr_externalMessageId = None,
             sr_error = Some (error_message e), sr_timestamp = now_result rt\<rparr>
      \<and> messages (snd (sendReply rt request w)) = messages w
      \<and> threads (snd (sendReply rt request w)) = threads w)
   \<and> (fst (sendReply rt request w) = Inr r \<and> \<not> success r \<longrightarrow>
      messages (snd (sendReply rt request w)) = messages w
      \<and> threads (snd (sendReply rt request w)) = threads w)"
proof (intro conjI impI)
  assume "threadRepository_getById (req_threadId request) w = None"
  then show "sendReply rt request w =
        (Inr \<lparr>success = False, sr_messageId = None, sr_externalMessageId = None,
              sr_error = Some ''Thread not found'', sr_timestamp = now_result rt\<rparr>, w)"
    by (rule sendReply_not_found)
next
  assume a: "threadRepository_getById (req_threadId request) w = Some thread
      \<and> CHANNEL_PROVIDERS (t_channel thread) \<noteq> Direct
      \<and> client_sendMessage rt (CHANNEL_PROVIDERS (t_channel thread)) thread (req_content request)
           (if CHANNEL_PROVIDERS (t_channel thread) = LinkedIn then None
            else req_attachments request) = SendThrows e"
  then have r: "fst (routeToChannel rt request thread w) =
      \<lparr>success = False, sr_messageId = None, sr_externalMessageId = None,
       sr_error = Some (error_message e), sr_timestamp = now_result rt\<rparr>"
    by (cases "CHANNEL_PROVIDERS (t_channel thread)")
       (simp_all add: routeToChannel_def callClient_def)
  then have "\<not> success (fst (routeToChannel rt request thread w))" by simp
  from sendReply_unsuccessful[OF _ this] a r
  show "fst (sendReply rt request w) =
        Inr \<lparr>success = False, sr_messageId = None, sr_externalMessageId = None,
             sr_error = Some (error_message e), sr_timestamp = now_result rt\<rparr>"
    and "messages (snd (sendReply rt request w)) = messages w"
    and "threads (snd (sendReply rt request w)) = threads w"
    by simp_all
next
  assume a: "fst (sendReply rt request w) = Inr r \<and> \<not> success r"
  have unchanged: "messages (snd (sendReply rt request w)) = messages w
                 \<and> threads (snd (sendReply rt request w)) = threads w"
  proof (cases "threadRepository_getById (req_threadId request) w")
    case None
    then show ?thesis by (simp add: sendReply_not_found)
  next
    case (Some thread)
    with a sendReply_returns[OF Some, of rt]
    have "\<not> success (fst (routeToChannel rt request thread w))" by simp
    from sendReply_unsuccessful[OF Some this] show ?thesis by simp
  qed
  then show "messages (snd (sendReply rt request w)) = messages w"
    and "threads (snd (sendReply rt request w)) = threads w"
    by simp_all
qed

text \<open>
  A reply to a thread that does not exist, and a reply to the SMS thread of the small
  world through a client that throws.
\<close>

theorem sendReply_persists_nothing_on_failure_witness:
  "threadRepository_getById ''thread-9'' seed_world = None
   \<and> sendReply throwing_run (reply\<lparr>req_threadId := ''thread-9''\<rparr>) seed_world =
       (Inr \<lparr>success = False, sr_messageId = None, sr_externalMessageId = None,
             sr_error = Some ''Thread not found'',
             sr_timestamp = ''2025-03-01T00:00:00.000Z''\<rparr>, seed_world)
   \<and> threadRepository_getById ''thread-1'' seed_world = Some closed_thread
   \<and> client_sendMessage throwing_run Twilio closed_thread ''hi back'' None =
       SendThrows (Error ''ETIMEDOUT'')
   \<and> fst (sendReply throwing_run reply seed_world) =
       Inr \<lparr>success = False, sr_messageId = None, sr_externalMessageId = None,
            sr_error = Some ''ETIMEDOUT'', sr_timestamp = ''2025-03-01T00:00:00.000Z''\<rparr>
   \<and> messages (snd (sendReply throwing_run reply seed_world)) = messages seed_world
   \<and> threads (snd (sendReply throwing_run reply seed_world)) = threads seed_world"
proof -
  have a: "threadRepository_getById (req_threadId (reply\<lparr>req_threadId := ''thread-9''\<rparr>))
             seed_world = None"
    by (simp add: ex_defs store_defs)
  have b: "threadRepository_getById (req_threadId reply) seed_world = Some closed_thread"
    by (simp add: ex_defs out_defs store_defs)
  have c: "CHANNEL_PROVIDERS (t_channel closed_thread) = Twilio"
    by (simp add: closed_thread_def)
  have d: "client_sendMessage throwing_run Twilio closed_thread (req_content reply)
             (req_attachments reply) = SendThrows (Error ''ETIMEDOUT'')"
    by (simp add: out_defs)
  have e: "req_content reply = ''hi back''" "req_attachments reply = None"
    "now_result throwing_run = ''2025-03-01T00:00:00.000Z''"
    "req_threadId reply = ''thread-1''"
    by (simp_all add: out_defs)
  have 1: "sendReply throwing_run (reply\<lparr>req_threadId := ''thread-9''\<rparr>) seed_world =
       (Inr \<lparr>success = False, sr_messageId = None, sr_externalMessageId = None,
             sr_error = Some ''Thread not found'',
             sr_timestamp = now_result throwing_run\<rparr>, seed_world)"
    using sendReply_persists_nothing_on_failure[of "reply\<lparr>req_threadId := ''thread-9''\<rparr>"
        seed_world throwing_run] a by blast
  have 2: "fst (sendReply throwing_run reply seed_world) =
       Inr \<lparr>success = False, sr_messageId = None, sr_externalMessageId = None,
            sr_error = Some (error_message (Error ''ETIMEDOUT'')),
            sr_timestamp = now_result throwing_run\<rparr>
      \<and> messages (snd (sendReply throwing_run reply seed_world)) = messages seed_world
      \<and> threads (snd (sendReply throwing_run reply seed_world)) = threads seed_world"
    using sendReply_persists_nothing_on_failure[of reply seed_world throwing_run closed_thread
        "Error ''ETIMEDOUT''"] b c d by simp
  show ?thesis using a b d 1 2 e by simp
qed

text \<open>
  C10, as the code has it. For every stored thread on a channel other than email,
  \<open>sendReply\<close> makes exactly one client call: to the Twilio client when the channel is
  line, sms, whatsapp or webchat, to the Meta client when it is facebook or instagram,
  and to the LinkedIn client (without the attachments) when it is linkedin; when that
  call returns a \<open>SendResult\<close>, \<open>sendReply\<close> returns it. For the email channel, whose
  provider in the table is \<open>direct\<close>, no client is called, the result is
  \<open>{success: false, error: 'Unsupported channel'}\<close>, and messages and threads are
  unchanged.
\<close>

theorem sendReply_routes_by_channel:
  assumes "threadRepository_getById (req_threadId request) w = Some thread"
  shows "(t_channel thread \<in> {LINE, SMS, WHATSAPP, WEBCHAT} \<longrightarrow>
            provider_calls (snd (sendReply rt request w)) =
              provider_calls w @ [(Twilio, thread, req_content request, req_attachments request)]
          \<and> (client_sendMessage rt Twilio thread (req_content request) (req_attachments request)
                = SendReturns r \<longrightarrow> fst (sendReply rt request w) = Inr r))
       \<and> (t_channel thread \<in> {FACEBOOK, INSTAGRAM} \<longrightarrow>
            provider_calls (snd (sendReply rt request w)) =
              provider_calls w @ [(Meta, thread, req_content request, req_attachments request)]
          \<and> (client_sendMessage rt Meta thread (req_content request) (req_attachments request)
                = SendReturns r \<longrightarrow> fst (sendReply rt request w) = Inr r))
       \<and> (t_channel thread = LINKEDIN \<longrightarrow>
            provider_calls (snd (sendReply rt request w)) =
              provider_calls w @ [(LinkedIn, thread, req_content request, None)]
          \<and> (client_sendMessage rt LinkedIn thread (req_content request) None
                = SendReturns r \<longrightarrow> fst (sendReply rt request w) = Inr r))
       \<and> (t_channel thread = EMAIL \<longrightarrow>
            provider_calls (snd (sendReply rt request w)) = provider_calls w
          \<and> fst (sendReply rt request w) =
              Inr \<lparr>success = False, sr_messageId = None, sr_externalMessageId = None,
                   sr_error = Some ''Unsupported channel'', sr_timestamp = now_result rt\<rparr>
          \<and> messages (snd (sendReply rt request w)) = messages w
          \<and> threads (snd (sendReply rt request w)) = threads w)"
proof -
  have email: "messages (snd (sendReply rt request w)) = messages w
             \<and> threads (snd (sendReply rt request w)) = threads w"
    if "t_channel thread = EMAIL"
  proof -
    have "\<not> success (fst (routeToChannel rt request thread w))"
      using that by (simp add: routeToChannel_def)
    from sendReply_unsuccessful[OF assms this] show ?thesis by simp
  qed
  show ?thesis
    unfolding sendReply_returns[OF assms] sendReply_provider_calls[OF assms]
    using email
    by (cases "t_channel thread") (simp_all add: routeToChannel_def callClient_def)
qed

text \<open>A reply to the SMS thread of the small world goes to the Twilio client, once.\<close>

theorem sendReply_routes_by_channel_witness:
  "threadRepository_getById ''thread-1'' seed_world = Some closed_thread
   \<and> t_channel closed_thread = SMS
   \<and> provider_calls (snd (sendReply delivering_run reply seed_world)) =
       [(Twilio, closed_thread, ''hi back'', None)]
   \<and> fst (sendReply delivering_run reply seed_world) = Inr sent_ok"
proof -
  have b: "threadRepository_getById (req_threadId reply) seed_world = Some closed_thread"
    by (simp add: ex_defs out_defs store_defs)
  have c: "t_channel closed_thread = SMS" by (simp add: closed_thread_def)
  have d: "client_sendMessage delivering_run Twilio closed_thread (req_content reply)
             (req_attachments reply) = SendReturns sent_ok"
    by (simp add: delivering_run_def)
  have e: "req_content reply = ''hi back''" "req_attachments reply = None"
    "provider_calls seed_world = []" "req_threadId reply = ''thread-1''"
    by (simp_all add: out_defs seed_world_def)
  from sendReply_routes_by_channel[OF b, of delivering_run sent_ok] c d
  have "provider_calls (snd (sendReply delivering_run reply seed_world)) =
          provider_calls seed_world @
            [(Twilio, closed_thread, req_content reply, req_attachments reply)]
        \<and> fst (sendReply delivering_run reply seed_world) = Inr sent_ok"
    by simp
  then show ?thesis using b c e by simp
qed

text \<open>
  C10 as stated fails on the email channel: the table maps it to \<open>direct\<close>, the client
  at hand would deliver, and \<open>sendReply\<close> returns \<open>Unsupported channel\<close> with the world,
  and so the empty log of client calls, unchanged.
\<close>

theorem email_reply_reaches_no_provider:
  "threadRepository_getById ''thread-2'' seed_world = Some email_thread
   \<and> t_channel email_thread = EMAIL
   \<and> CHANNEL_PROVIDERS EMAIL = Direct
   \<and> client_sendMessage delivering_run Direct email_thread ''hi back'' None = SendReturns sent_ok
   \<and> sendReply delivering_run (reply\<lparr>req_threadId := ''thread-2''\<rparr>) seed_world =
       (Inr \<lparr>success = False, sr_messageId = None, sr_externalMessageId = None,
             sr_error = Some ''Unsupported channel'',
             sr_timestamp = ''2025-03-01T00:00:00.000Z''\<rparr>, seed_world)
   \<and> provider_calls seed_world = []"
  by (simp add: sendReply_def routeToChannel_def updateMessageStatus_def ex_defs out_defs
      store_defs)


section \<open>The rule engine: what evaluate returns\<close>

lemma every_condition_total:
  assumes "\<forall>c\<in>set cs. cond_type c = CondCustomerAttribute \<longrightarrow> (\<exists>s. cond_value c = Str s)"
  shows "every_condition now cs m cu t =
           Inr (\<forall>c\<in>set cs. evaluateCondition now c m cu t = Inr True)"
  using assms
proof (induction cs)
  case Nil
  then show ?case by simp
next
  case (Cons c cs)
  have "\<exists>b. evaluateCondition now c m cu t = Inr b"
    using Cons.prems
    by (cases "cond_type c")
       (auto simp: evaluateCondition_def matchCustomerAttribute_def Let_def)
  then obtain b where b: "evaluateCondition now c m cu t = Inr b" by blast
  show ?case using Cons b by auto
qed

lemma evaluate_rules_total:
  assumes "\<forall>r\<in>set rules. enabled r \<longrightarrow>
             (\<forall>c\<in>set (conditions r).
                cond_type c = CondCustomerAttribute \<longrightarrow> (\<exists>s. cond_value c = Str s))"
  shows "evaluate_rules now rules acc m cu t =
           Inr (acc @ concat (map actions
                  (filter (\<lambda>r. enabled r \<and>
                     (\<forall>c\<in>set (conditions r). evaluateCondition now c m cu t = Inr True))
                   rules)))"
  using assms
proof (induction rules arbitrary: acc)
  case Nil
  then show ?case by simp
next
  case (Cons r rules)
  show ?case
  proof (cases "enabled r")
    case False
    then show ?thesis using Cons by simp
  next
    case True
    then have "every_condition now (conditions r) m cu t =
           Inr (\<forall>c\<in>set (conditions r). evaluateCondition now c m cu t = Inr True)"
      using Cons.prems by (intro every_condition_total) simp
    then show ?thesis using True Cons by simp
  qed
qed

lemma vip_condition:
  "evaluateCondition now
     \<lparr>cond_type = CondCustomerAttribute, cond_operator = opr, cond_value = Str ''vip:true''\<rparr>
     m cu t = Inr (isVip cu)"
  by (simp add: evaluateCondition_def matchCustomerAttribute_def Let_def)

text \<open>
  C8, as the code has it. For every rule list in which each customer-attribute
  condition of an enabled rule carries a string, and for every message, customer and
  thread, \<open>evaluate\<close> returns the concatenation, in rule-list order, of the action lists
  of the enabled rules all of whose conditions evaluate to true. A rule of the list whose
  single condition is customer_attribute equals \<open>vip:true\<close> is among them exactly when
  it is enabled and the customer is VIP.
\<close>

theorem evaluate_accumulates_fired_rules:
  assumes "\<forall>r\<in>set rules. enabled r \<longrightarrow>
             (\<forall>c\<in>set (conditions r).
                cond_type c = CondCustomerAttribute \<longrightarrow> (\<exists>s. cond_value c = Str s))"
  shows "evaluate rules now m cu t =
           Inr (concat (map actions
                  (filter (\<lambda>r. enabled r \<and>
                     (\<forall>c\<in>set (conditions r). evaluateCondition now c m cu t = Inr True))
                   rules)))
       \<and> (\<forall>r\<in>set rules.
            conditions r = [\<lparr>cond_type = CondCustomerAttribute, cond_operator = Equals,
                             cond_value = Str ''vip:true''\<rparr>] \<longrightarrow>
            (enabled r \<and> (\<forall>c\<in>set (conditions r). evaluateCondition now c m cu t = Inr True))
              = (enabled r \<and> isVip cu))"
  using evaluate_rules_total[OF assms, of now "[]" m cu t]
  by (auto simp: evaluate_def vip_condition)

text \<open>
  The rules loaded at start-up, for a message without keyword: nothing for Alice, who is
  not VIP, and the two actions of the VIP rule for Bob.
\<close>

theorem evaluate_accumulates_fired_rules_witness:
  "evaluate (loadRules []) monday_morning sent_message alice closed_thread = Inr []
   \<and> evaluate (loadRules []) monday_morning sent_message bob closed_thread =
       Inr [\<lparr>action_type = Notify, params = [(''groupId'', []), (''mention'', ''@all'')]\<rparr>,
            \<lparr>action_type = Priority, params = [(''level'', ''high'')]\<rparr>]"
proof -
  have h: "\<forall>r\<in>set (loadRules []). enabled r \<longrightarrow>
             (\<forall>c\<in>set (conditions r).
                cond_type c = CondCustomerAttribute \<longrightarrow> (\<exists>s. cond_value c = Str s))"
    by (simp add: loadRules_def)
  have a: "concat (map actions
             (filter (\<lambda>r. enabled r \<and>
                (\<forall>c\<in>set (conditions r).
                   evaluateCondition monday_morning c sent_message alice closed_thread = Inr True))
              (loadRules []))) = []"
    by code_simp
  have b: "concat (map actions
             (filter (\<lambda>r. enabled r \<and>
                (\<forall>c\<in>set (conditions r).
                   evaluateCondition monday_morning c sent_message bob closed_thread = Inr True))
              (loadRules []))) =
           [\<lparr>action_type = Notify, params = [(''groupId'', []), (''mention'', ''@all'')]\<rparr>,
            \<lparr>action_type = Priority, params = [(''level'', ''high'')]\<rparr>]"
    by code_simp
  from evaluate_accumulates_fired_rules[OF h, of monday_morning sent_message alice closed_thread]
    evaluate_accumulates_fired_rules[OF h, of monday_morning sent_message bob closed_thread]
  show ?thesis unfolding a b by blast
qed

text \<open>
  C8 as stated fails for a rule list with an array-valued customer-attribute condition:
  \<open>split\<close> is called on the array, and \<open>evaluate\<close> throws instead of returning a list.
\<close>

theorem array_valued_attribute_rule_throws:
  "evaluate [array_valued_rule] monday_morning sent_message bob closed_thread =
     Inl (TypeError ''condition.value.split is not a function'')"
  by (simp add: evaluate_def evaluateCondition_def matchCustomerAttribute_def
      array_valued_rule_def)

end
